theory Spec2Isabelle
  imports Complex_Main
begin

section \<open>JavaScript values\<close>

text \<open>
  The gateway's node event handler (\<^verbatim>\<open>handleNodeEvent\<close> in
  \<^verbatim>\<open>server-node-events.ts\<close>) receives an event name and a JSON text, decodes the
  text with \<^verbatim>\<open>JSON.parse\<close> and inspects the decoded value with \<^verbatim>\<open>typeof\<close>
  tests. The values it can meet are the JSON values.

  A JavaScript string is a sequence of UTF-16 code units and \<^verbatim>\<open>length\<close> counts
  them. A string is written here as a \<open>char list\<close> with one element per code unit, so
  \<open>length\<close> is the JavaScript \<^verbatim>\<open>length\<close> (for code units in the range 0..255).

  A JavaScript number is a binary64 value: a finite one (every finite binary64 value is
  a rational), an infinity, or NaN. \<^verbatim>\<open>JSON.parse\<close> yields an infinity for a literal
  out of range such as \<^verbatim>\<open>1e999\<close>.
\<close>

datatype number = Finite rat | PosInfinity | NegInfinity | NaN

datatype json =
    JNull
  | JBool bool
  | JNum number
  | JStr string
  | JArr "json list"
  | JObj "(string \<times> json) list"

datatype error = TypeError

text \<open>\<^verbatim>\<open>Number.isFinite\<close> and \<^verbatim>\<open>Math.floor\<close> (on a finite number).\<close>

fun isFinite :: "number \<Rightarrow> bool" where
  "isFinite (Finite r) = True"
| "isFinite PosInfinity = False"
| "isFinite NegInfinity = False"
| "isFinite NaN = False"

fun floorNumber :: "number \<Rightarrow> number" where
  "floorNumber (Finite r) = Finite (of_int \<lfloor>r\<rfloor>)"
| "floorNumber n = n"

text \<open>
  \<^verbatim>\<open>String.prototype.trim\<close> removes white space and line terminators from both ends.
  In the range 0..255 these are tab, line feed, vertical tab, form feed, carriage
  return, space and the no-break space.
\<close>

definition isWhiteSpace :: "char \<Rightarrow> bool" where
  "isWhiteSpace c =
     (c = CHR 0x09 \<or> c = CHR 0x0A \<or> c = CHR 0x0B \<or> c = CHR 0x0C \<or> c = CHR 0x0D \<or>
      c = CHR 0x20 \<or> c = CHR 0xA0)"

definition trim :: "string \<Rightarrow> string" where
  "trim s = rev (dropWhile isWhiteSpace (rev (dropWhile isWhiteSpace s)))"

text \<open>
  Property access \<^verbatim>\<open>obj.key\<close> on a decoded value; \<open>None\<close> is \<^verbatim>\<open>undefined\<close>.
  \<^verbatim>\<open>JSON.parse\<close> keeps the last of several members with one key. The handler reads
  only the keys named in its source, none of which an array, a primitive or
  \<^verbatim>\<open>Object.prototype\<close> has, so every value but an object answers \<^verbatim>\<open>undefined\<close>.
\<close>

fun getProp :: "json \<Rightarrow> string \<Rightarrow> json option" where
  "getProp (JObj kvs) k = map_of (rev kvs) k"
| "getProp v k = None"

text \<open>
  \<^verbatim>\<open>typeof payload === "object" && payload !== null ? payload : {}\<close>: arrays are
  objects too.
\<close>

fun asRecord :: "json \<Rightarrow> json" where
  "asRecord (JObj kvs) = JObj kvs"
| "asRecord (JArr xs) = JArr xs"
| "asRecord v = JObj []"

text \<open>\<^verbatim>\<open>typeof v === "string" ? v.trim() : d\<close>, for a property that may be absent.\<close>

fun trimmedStringOr :: "string \<Rightarrow> json option \<Rightarrow> string" where
  "trimmedStringOr d (Some (JStr s)) = trim s"
| "trimmedStringOr d v = d"

fun trimmedStringOpt :: "json option \<Rightarrow> string option" where
  "trimmedStringOpt (Some (JStr s)) = Some (trim s)"
| "trimmedStringOpt v = None"

text \<open>\<^verbatim>\<open>typeof v === "number" ? v : undefined\<close>.\<close>

fun numberOpt :: "json option \<Rightarrow> number option" where
  "numberOpt (Some (JNum n)) = Some n"
| "numberOpt v = None"

text \<open>\<^verbatim>\<open>typeof v === "number" ? v : NaN\<close>.\<close>

fun numberOrNaN :: "json option \<Rightarrow> number" where
  "numberOrNaN (Some (JNum n)) = n"
| "numberOrNaN v = NaN"

text \<open>
  \<^verbatim>\<open>typeof v === "number" && Number.isFinite(v) ? Math.floor(v) : now\<close>, the default
  of a missing time stamp.
\<close>

fun timestampOr :: "int \<Rightarrow> json option \<Rightarrow> number" where
  "timestampOr now (Some (JNum n)) = (if isFinite n then floorNumber n else Finite (of_int now))"
| "timestampOr now v = Finite (of_int now)"

text \<open>\<^verbatim>\<open>Boolean(v)\<close>: the truthiness of a property that may be absent.\<close>

fun truthy :: "json option \<Rightarrow> bool" where
  "truthy None = False"
| "truthy (Some JNull) = False"
| "truthy (Some (JBool b)) = b"
| "truthy (Some (JNum (Finite r))) = (r \<noteq> 0)"
| "truthy (Some (JNum NaN)) = False"
| "truthy (Some (JNum n)) = True"
| "truthy (Some (JStr s)) = (s \<noteq> [])"
| "truthy (Some (JArr xs)) = True"
| "truthy (Some (JObj kvs)) = True"

text \<open>
  \<^verbatim>\<open>(v ?? "").trim()\<close>: \<^verbatim>\<open>undefined\<close> and \<^verbatim>\<open>null\<close> give the empty string, a
  string is trimmed, and any other value has no \<^verbatim>\<open>trim\<close> method, so the call throws
  a TypeError.
\<close>

fun coalesceTrim :: "json option \<Rightarrow> error + string" where
  "coalesceTrim None = Inr []"
| "coalesceTrim (Some JNull) = Inr []"
| "coalesceTrim (Some (JStr s)) = Inr (trim s)"
| "coalesceTrim (Some v) = Inl TypeError"

text \<open>Decimal digits of a natural number.\<close>

fun decimal :: "nat \<Rightarrow> string" where
  "decimal n =
     (if n < 10 then [''0123456789'' ! n]
      else decimal (n div 10) @ [''0123456789'' ! (n mod 10)])"

declare decimal.simps [simp del]

section \<open>The gateway around the handler\<close>

text \<open>
  What the handler takes from its surroundings and does not define: the platform's
  \<^verbatim>\<open>JSON.parse\<close> (\<open>None\<close> when it throws a SyntaxError), \<^verbatim>\<open>randomUUID\<close> (the
  n-th identifier drawn) and the printing of a number that is not an integer of
  magnitude at most \<open>2^53\<close>;
  \<^verbatim>\<open>normalizeChannelId\<close> of the channel plugins (\<open>None\<close> for \<^verbatim>\<open>null\<close> or
  \<^verbatim>\<open>undefined\<close>); the value of \<^verbatim>\<open>normalizeMainKey(loadConfig().session?.mainKey)\<close>;
  and the store path and canonical key that \<^verbatim>\<open>loadSessionEntry\<close> answers for a
  session key.
\<close>

record platform =
  JSON_parse :: "string \<Rightarrow> json option"
  randomUUID :: "nat \<Rightarrow> string"
  numberToString :: "rat \<Rightarrow> string"
  normalizeChannelId :: "string \<Rightarrow> string option"
  mainKey :: string
  storePath :: string
  canonicalKey :: "string \<Rightarrow> string"

text \<open>
  Modelled from the spec: the type \<^verbatim>\<open>SessionEntry\<close> of \<^verbatim>\<open>config/sessions\<close> is not
  among the sources. Its fields are the ones the handler writes, the ones the directive
  tests read from the store (\<^verbatim>\<open>elevatedLevel\<close>, \<^verbatim>\<open>queueMode\<close>,
  \<^verbatim>\<open>queueDebounceMs\<close>, \<^verbatim>\<open>queueCap\<close>, \<^verbatim>\<open>queueDrop\<close>) and the exec defaults of the
  spec's data model (host, security, ask, node). Every field but \<^verbatim>\<open>sessionId\<close> and
  \<^verbatim>\<open>updatedAt\<close> is optional; \<open>None\<close> is \<^verbatim>\<open>undefined\<close>.
\<close>

record SessionEntry =
  sessionId :: string
  updatedAt :: int
  thinkingLevel :: "string option"
  verboseLevel :: "string option"
  reasoningLevel :: "string option"
  elevatedLevel :: "string option"
  execHost :: "string option"
  execSecurity :: "string option"
  execAsk :: "string option"
  execNode :: "string option"
  queueMode :: "string option"
  queueDebounceMs :: "nat option"
  queueCap :: "nat option"
  queueDrop :: "string option"
  sendPolicy :: "string option"
  systemSent :: "bool option"
  lastChannel :: "string option"
  lastTo :: "string option"

text \<open>The arguments of the node registry update and of its durable mirror.\<close>

record node_location =
  lat :: number
  lon :: number
  accuracyM :: "number option"
  altitudeM :: "number option"
  speedMps :: "number option"
  courseDeg :: "number option"
  tsMs :: number
  source :: "string option"

datatype node_patch =
    Lifecycle string "string option" number
  | LastLocation node_location
  | Push string number

text \<open>
  The options object passed to \<^verbatim>\<open>agentCommand\<close>; each field is the source's
  name with \<open>_arg\<close> appended.
\<close>

record agent_opts =
  message_arg :: string
  sessionId_arg :: string
  sessionKey_arg :: string
  thinking_arg :: "json option"
  deliver_arg :: bool
  to_arg :: "string option"
  channel_arg :: "string option"
  timeout_arg :: "string option"
  messageChannel_arg :: string

text \<open>
  The handler acts on the world only through calls on its collaborators, none of which
  is among the sources. The model records each call, in the order the handler makes
  them:
  \<^item> \<open>RegistryUpdate nodeId patch\<close> is \<^verbatim>\<open>ctx.nodeRegistry.update\<close>;
  \<^item> \<open>UpdatePairedDeviceMetadata nodeId patch\<close> is the best-effort durable mirror;
  \<^item> \<open>AddChatRun sessionId sessionKey clientRunId\<close> is \<^verbatim>\<open>ctx.addChatRun\<close>;
  \<^item> \<open>AgentCommand opts\<close> is the fire-and-forget call of the executor;
  \<^item> \<open>NodeSubscribe nodeId sessionKey\<close> and \<open>NodeUnsubscribe nodeId sessionKey\<close>;
  \<^item> \<open>EnqueueSystemEvent text sessionKey contextKey\<close>;
  \<^item> \<open>RequestHeartbeatNow reason\<close>.
\<close>

datatype effect =
    RegistryUpdate string node_patch
  | UpdatePairedDeviceMetadata string node_patch
  | AddChatRun string string string
  | AgentCommand agent_opts
  | NodeSubscribe string string
  | NodeUnsubscribe string string
  | EnqueueSystemEvent string string string
  | RequestHeartbeatNow string

text \<open>
  The state the handler reads and writes: the session store (an object from canonical
  key to entry, written through \<^verbatim>\<open>updateSessionStore\<close>), the calls made so far,
  the reading of \<^verbatim>\<open>Date.now()\<close> and the number of identifiers drawn.
\<close>

record gateway =
  sessionStore :: "string \<rightharpoonup> SessionEntry"
  effects :: "effect list"
  clock :: int
  uuidsDrawn :: nat

record NodeEvent =
  event :: string
  payloadJSON :: "string option"

definition emit :: "effect \<Rightarrow> gateway \<Rightarrow> gateway" where
  "emit e st = st\<lparr>effects := effects st @ [e]\<rparr>"

text \<open>
  \<^verbatim>\<open>Number.prototype.toString\<close>, which a template literal applies too. It prints
  the shortest digits that read back as the same binary64 value. For an integer of
  magnitude at most \<open>2^53\<close> these are its decimal digits; the printing of every other
  finite number (a fraction, or an integer beyond \<open>2^53\<close>, whose digits are rounded) is
  left to the platform.
\<close>

fun Number_toString :: "platform \<Rightarrow> number \<Rightarrow> string" where
  "Number_toString p (Finite r) =
     (if of_int \<lfloor>r\<rfloor> = r \<and> \<bar>r\<bar> \<le> 2 ^ 53
      then (if r < 0 then ''-'' @ decimal (nat (- \<lfloor>r\<rfloor>)) else decimal (nat \<lfloor>r\<rfloor>))
      else numberToString p r)"
| "Number_toString p PosInfinity = ''Infinity''"
| "Number_toString p NegInfinity = ''-Infinity''"
| "Number_toString p NaN = ''NaN''"

text \<open>
  The head of every case of the switch:
  \<^verbatim>\<open>if (!evt.payloadJSON) return; try { payload = JSON.parse(evt.payloadJSON) } catch { return }\<close>.
  An absent, null or empty text is falsy.
\<close>

definition decodePayload :: "platform \<Rightarrow> NodeEvent \<Rightarrow> json option" where
  "decodePayload p evt =
     (case payloadJSON evt of
        None \<Rightarrow> None
      | Some s \<Rightarrow> if s = [] then None else JSON_parse p s)"

text \<open>
  Modelled from the spec: \<^verbatim>\<open>loadSessionEntry\<close> of \<^verbatim>\<open>session-utils\<close> is not among
  the sources. It answers the store path, the entry stored under the canonical key (if
  any) and the canonical key.
\<close>

definition loadSessionEntry ::
  "platform \<Rightarrow> gateway \<Rightarrow> string \<Rightarrow> string \<times> SessionEntry option \<times> string" where
  "loadSessionEntry p st sessionKey =
     (storePath p, sessionStore st (canonicalKey p sessionKey), canonicalKey p sessionKey)"

text \<open>
  The resolution of the session, the same lines in the \<^verbatim>\<open>voice.transcript\<close> and the
  \<^verbatim>\<open>agent.request\<close> case:
  \<^verbatim>\<open>
  const { storePath, entry, canonicalKey } = loadSessionEntry(sessionKey);
  const now = Date.now();
  const sessionId = entry?.sessionId ?? randomUUID();
  if (storePath) {
    await updateSessionStore(storePath, (store) => {
      store[canonicalKey] = { sessionId, updatedAt: now, thinkingLevel: entry?.thinkingLevel, ... };
    });
  }
  \<close>
  The entry written has the nine fields the source lists and no other.
\<close>

definition resolveSession :: "platform \<Rightarrow> string \<Rightarrow> gateway \<Rightarrow> string \<times> gateway" where
  "resolveSession p sessionKey st =
     (case loadSessionEntry p st sessionKey of (path, entry, ckey) \<Rightarrow>
        let now = clock st;
            (sid, st1) =
               (case entry of
                  Some e \<Rightarrow> (sessionId e, st)
                | None \<Rightarrow> (randomUUID p (uuidsDrawn st), st\<lparr>uuidsDrawn := Suc (uuidsDrawn st)\<rparr>));
            st2 =
               (if path \<noteq> [] then
                  st1\<lparr>sessionStore := (sessionStore st1)(ckey \<mapsto>
                    \<lparr>sessionId = sid,
                     updatedAt = now,
                     thinkingLevel = Option.bind entry thinkingLevel,
                     verboseLevel = Option.bind entry verboseLevel,
                     reasoningLevel = Option.bind entry reasoningLevel,
                     elevatedLevel = None,
                     execHost = None,
                     execSecurity = None,
                     execAsk = None,
                     execNode = None,
                     queueMode = None,
                     queueDebounceMs = None,
                     queueCap = None,
                     queueDrop = None,
                     sendPolicy = Option.bind entry sendPolicy,
                     systemSent = Option.bind entry systemSent,
                     lastChannel = Option.bind entry lastChannel,
                     lastTo = Option.bind entry lastTo\<rparr>)\<rparr>
                else st1)
        in (sid, st2))"

section \<open>The node event handler\<close>

text \<open>
  Each case of the switch of \<^verbatim>\<open>handleNodeEvent\<close> is one definition, taking the
  decoded payload. A case answers \<open>Inr\<close> of the state it leaves, or \<open>Inl\<close> of the
  error it throws (the handler is \<^verbatim>\<open>async\<close>: its promise is rejected). A plain
  \<^verbatim>\<open>return\<close> before any call leaves the state as it was.

  The model runs one event to its end before the next: the interleaving of two
  handlers at the awaited store update is not modelled, nor is a failure of a
  collaborator's call.
\<close>

definition handleLifecycle :: "string \<Rightarrow> json \<Rightarrow> gateway \<Rightarrow> error + gateway" where
  "handleLifecycle nodeId payload st =
     (let obj = asRecord payload;
          state = trimmedStringOr [] (getProp obj ''state'')
      in if state = [] then Inr st
         else
           let reason = trimmedStringOpt (getProp obj ''reason'');
               updatedAtMs = timestampOr (clock st) (getProp obj ''tsMs'');
               patch = Lifecycle state reason updatedAtMs
           in Inr (emit (UpdatePairedDeviceMetadata nodeId patch)
                     (emit (RegistryUpdate nodeId patch) st)))"

definition handleLocation :: "string \<Rightarrow> json \<Rightarrow> gateway \<Rightarrow> error + gateway" where
  "handleLocation nodeId payload st =
     (let obj = asRecord payload;
          lat = numberOrNaN (getProp obj ''lat'');
          lon = numberOrNaN (getProp obj ''lon'')
      in if \<not> isFinite lat \<or> \<not> isFinite lon then Inr st
         else
           let loc = \<lparr>lat = lat, lon = lon,
                      accuracyM = numberOpt (getProp obj ''accuracyM''),
                      altitudeM = numberOpt (getProp obj ''altitudeM''),
                      speedMps = numberOpt (getProp obj ''speedMps''),
                      courseDeg = numberOpt (getProp obj ''courseDeg''),
                      tsMs = timestampOr (clock st) (getProp obj ''tsMs''),
                      source = trimmedStringOpt (getProp obj ''source'')\<rparr>
           in Inr (emit (UpdatePairedDeviceMetadata nodeId (LastLocation loc))
                     (emit (RegistryUpdate nodeId (LastLocation loc)) st)))"

definition handleApnsToken :: "string \<Rightarrow> json \<Rightarrow> gateway \<Rightarrow> error + gateway" where
  "handleApnsToken nodeId payload st =
     (let obj = asRecord payload;
          token = trimmedStringOr [] (getProp obj ''token'')
      in if token = [] then Inr st
         else
           let updatedAtMs = timestampOr (clock st) (getProp obj ''updatedAtMs'');
               push = Push token updatedAtMs
           in Inr (emit (UpdatePairedDeviceMetadata nodeId push)
                     (emit (RegistryUpdate nodeId push) st)))"

definition handleVoiceTranscript ::
  "platform \<Rightarrow> string \<Rightarrow> json \<Rightarrow> gateway \<Rightarrow> error + gateway" where
  "handleVoiceTranscript p nodeId payload st =
     (let obj = asRecord payload;
          text = trimmedStringOr [] (getProp obj ''text'')
      in if text = [] then Inr st
         else if length text > 20000 then Inr st
         else
           let sessionKeyRaw = trimmedStringOr [] (getProp obj ''sessionKey'');
               rawMainKey = mainKey p;
               sessionKey = (if length sessionKeyRaw > 0 then sessionKeyRaw else rawMainKey)
           in case resolveSession p sessionKey st of (sid, st1) \<Rightarrow>
                let clientRunId = ''voice-'' @ randomUUID p (uuidsDrawn st1);
                    st2 = st1\<lparr>uuidsDrawn := Suc (uuidsDrawn st1)\<rparr>;
                    st3 = emit (AddChatRun sid sessionKey clientRunId) st2
                in Inr (emit (AgentCommand
                           \<lparr>message_arg = text,
                            sessionId_arg = sid,
                            sessionKey_arg = sessionKey,
                            thinking_arg = Some (JStr ''low''),
                            deliver_arg = False,
                            to_arg = None,
                            channel_arg = None,
                            timeout_arg = None,
                            messageChannel_arg = ''node''\<rparr>) st3))"

text \<open>
  The \<^verbatim>\<open>agent.request\<close> case reads the properties of the decoded value itself
  (\<^verbatim>\<open>link?.message\<close>), and trims \<^verbatim>\<open>message\<close> and \<^verbatim>\<open>sessionKey\<close> without a
  \<^verbatim>\<open>typeof\<close> test.
\<close>

definition handleAgentRequest ::
  "platform \<Rightarrow> string \<Rightarrow> json \<Rightarrow> gateway \<Rightarrow> error + gateway" where
  "handleAgentRequest p nodeId link st =
     (case coalesceTrim (getProp link ''message'') of
        Inl err \<Rightarrow> Inl err
      | Inr message \<Rightarrow>
          if message = [] then Inr st
          else if length message > 20000 then Inr st
          else
            let channelRaw = trimmedStringOr [] (getProp link ''channel'');
                channel = normalizeChannelId p channelRaw;
                to = (case getProp link ''to'' of
                        Some (JStr s) \<Rightarrow> if trim s \<noteq> [] then Some (trim s) else None
                      | _ \<Rightarrow> None);
                deliver = (truthy (getProp link ''deliver'') \<and>
                           (case channel of Some c \<Rightarrow> c \<noteq> [] | None \<Rightarrow> False))
            in (case coalesceTrim (getProp link ''sessionKey'') of
                 Inl err \<Rightarrow> Inl err
               | Inr sessionKeyRaw \<Rightarrow>
                   let sessionKey =
                         (if length sessionKeyRaw > 0 then sessionKeyRaw else ''node-'' @ nodeId)
                   in case resolveSession p sessionKey st of (sid, st1) \<Rightarrow>
                        Inr (emit (AgentCommand
                               \<lparr>message_arg = message,
                                sessionId_arg = sid,
                                sessionKey_arg = sessionKey,
                                thinking_arg = (case getProp link ''thinking'' of
                                              Some JNull \<Rightarrow> None | v \<Rightarrow> v),
                                deliver_arg = deliver,
                                to_arg = to,
                                channel_arg = channel,
                                timeout_arg = (case getProp link ''timeoutSeconds'' of
                                             Some (JNum n) \<Rightarrow> Some (Number_toString p n)
                                           | _ \<Rightarrow> None),
                                messageChannel_arg = ''node''\<rparr>) st1)))"

definition handleChatSubscribe :: "string \<Rightarrow> json \<Rightarrow> gateway \<Rightarrow> error + gateway" where
  "handleChatSubscribe nodeId payload st =
     (let obj = asRecord payload;
          sessionKey = trimmedStringOr [] (getProp obj ''sessionKey'')
      in if sessionKey = [] then Inr st
         else Inr (emit (NodeSubscribe nodeId sessionKey) st))"

definition handleChatUnsubscribe :: "string \<Rightarrow> json \<Rightarrow> gateway \<Rightarrow> error + gateway" where
  "handleChatUnsubscribe nodeId payload st =
     (let obj = asRecord payload;
          sessionKey = trimmedStringOr [] (getProp obj ''sessionKey'')
      in if sessionKey = [] then Inr st
         else Inr (emit (NodeUnsubscribe nodeId sessionKey) st))"

text \<open>
  The three exec events share one case; \<open>kind\<close> is \<^verbatim>\<open>evt.event\<close>. The session key
  defaults to \<^verbatim>\<open>node-<nodeId>\<close> only when the property is not a string.
\<close>

definition execText ::
  "platform \<Rightarrow> string \<Rightarrow> string \<Rightarrow> json \<Rightarrow> string" where
  "execText p kind nodeId obj =
     (let runId = trimmedStringOr [] (getProp obj ''runId'');
          command = trimmedStringOr [] (getProp obj ''command'');
          exitCode = (case getProp obj ''exitCode'' of
                        Some (JNum n) \<Rightarrow> if isFinite n then Some n else None
                      | _ \<Rightarrow> None);
          timedOut = (getProp obj ''timedOut'' = Some (JBool True));
          output = trimmedStringOr [] (getProp obj ''output'');
          reason = trimmedStringOr [] (getProp obj ''reason'');
          idPart = (if runId \<noteq> [] then '' id='' @ runId else [])
      in if kind = ''exec.started'' then
           ''Exec started (node='' @ nodeId @ idPart @ '')'' @
           (if command \<noteq> [] then '': '' @ command else [])
         else if kind = ''exec.finished'' then
           (let exitLabel =
                  (if timedOut then ''timeout''
                   else ''code '' @ (case exitCode of
                                       Some n \<Rightarrow> Number_toString p n
                                     | None \<Rightarrow> ''?''))
            in ''Exec finished (node='' @ nodeId @ idPart @ '', '' @ exitLabel @ '')'' @
               (if output \<noteq> [] then [CHR 0x0A] @ output else []))
         else
           ''Exec denied (node='' @ nodeId @ idPart @
           (if reason \<noteq> [] then '', '' @ reason else []) @ '')'' @
           (if command \<noteq> [] then '': '' @ command else []))"

definition handleExec ::
  "platform \<Rightarrow> string \<Rightarrow> string \<Rightarrow> json \<Rightarrow> gateway \<Rightarrow> error + gateway" where
  "handleExec p kind nodeId payload st =
     (let obj = asRecord payload;
          sessionKey = trimmedStringOr (''node-'' @ nodeId) (getProp obj ''sessionKey'')
      in if sessionKey = [] then Inr st
         else
           let runId = trimmedStringOr [] (getProp obj ''runId'');
               text = execText p kind nodeId obj;
               contextKey = (if runId \<noteq> [] then ''exec:'' @ runId else ''exec'')
           in Inr (emit (RequestHeartbeatNow ''exec-event'')
                     (emit (EnqueueSystemEvent text sessionKey contextKey) st)))"

definition withPayload ::
  "platform \<Rightarrow> NodeEvent \<Rightarrow> gateway \<Rightarrow> (json \<Rightarrow> gateway \<Rightarrow> error + gateway) \<Rightarrow> error + gateway"
  where
  "withPayload p evt st k =
     (case decodePayload p evt of None \<Rightarrow> Inr st | Some payload \<Rightarrow> k payload st)"

definition handleNodeEvent ::
  "platform \<Rightarrow> string \<Rightarrow> NodeEvent \<Rightarrow> gateway \<Rightarrow> error + gateway" where
  "handleNodeEvent p nodeId evt st =
     (if event evt = ''node.lifecycle'' then withPayload p evt st (handleLifecycle nodeId)
      else if event evt = ''node.location'' then withPayload p evt st (handleLocation nodeId)
      else if event evt = ''push.apnsToken'' then withPayload p evt st (handleApnsToken nodeId)
      else if event evt = ''voice.transcript'' then
        withPayload p evt st (handleVoiceTranscript p nodeId)
      else if event evt = ''agent.request'' then
        withPayload p evt st (handleAgentRequest p nodeId)
      else if event evt = ''chat.subscribe'' then
        withPayload p evt st (handleChatSubscribe nodeId)
      else if event evt = ''chat.unsubscribe'' then
        withPayload p evt st (handleChatUnsubscribe nodeId)
      else if event evt = ''exec.started'' \<or> event evt = ''exec.finished'' \<or>
              event evt = ''exec.denied'' then
        withPayload p evt st (handleExec p (event evt) nodeId)
      else Inr st)"

section \<open>A decoder for concrete payload texts\<close>

text \<open>
  \<^verbatim>\<open>JSON.parse\<close> belongs to the platform, and every general statement below holds
  for whatever function stands for it. To run the handler on a payload text as a node
  sends it, \<open>decodeJson\<close> reads the JSON texts made of objects, arrays, strings (with
  the two-character escapes, without \<^verbatim>\<open>\u\<close> escapes), integer literals up to
  \<open>2^53\<close>, \<^verbatim>\<open>true\<close>, \<^verbatim>\<open>false\<close> and \<^verbatim>\<open>null\<close>, by the grammar of JSON. It
  is used on the payload texts of the runs below only, each of which it is shown to
  decode. The recursion is bounded by a fuel of one more than the length of the text.
\<close>

definition isJsonSpace :: "char \<Rightarrow> bool" where
  "isJsonSpace c = (c = CHR 0x20 \<or> c = CHR 0x09 \<or> c = CHR 0x0A \<or> c = CHR 0x0D)"

definition skipWs :: "string \<Rightarrow> string" where
  "skipWs cs = dropWhile isJsonSpace cs"

definition isDigit :: "char \<Rightarrow> bool" where
  "isDigit c = (48 \<le> (of_char c :: nat) \<and> (of_char c :: nat) \<le> 57)"

definition unescape :: "char \<Rightarrow> char option" where
  "unescape e =
     (if e = CHR 0x22 then Some (CHR 0x22)
      else if e = CHR 0x5C then Some (CHR 0x5C)
      else if e = CHR ''/'' then Some (CHR ''/'')
      else if e = CHR ''b'' then Some (CHR 0x08)
      else if e = CHR ''f'' then Some (CHR 0x0C)
      else if e = CHR ''n'' then Some (CHR 0x0A)
      else if e = CHR ''r'' then Some (CHR 0x0D)
      else if e = CHR ''t'' then Some (CHR 0x09)
      else None)"

text \<open>The characters of a string after its opening quote, up to the closing one.\<close>

fun jsonChars :: "string \<Rightarrow> string \<Rightarrow> (string \<times> string) option" where
  "jsonChars acc [] = None"
| "jsonChars acc [c] = (if c = CHR 0x22 then Some (rev acc, []) else None)"
| "jsonChars acc (c # d # cs) =
     (if c = CHR 0x22 then Some (rev acc, d # cs)
      else if c = CHR 0x5C then
        (case unescape d of None \<Rightarrow> None | Some u \<Rightarrow> jsonChars (u # acc) cs)
      else if (of_char c :: nat) < 32 then None
      else jsonChars (c # acc) (d # cs))"

fun jsonDigits :: "nat \<Rightarrow> string \<Rightarrow> nat \<times> string" where
  "jsonDigits acc [] = (acc, [])"
| "jsonDigits acc (c # cs) =
     (if isDigit c then jsonDigits (10 * acc + (of_char c - 48)) cs else (acc, c # cs))"

text \<open>
  An integer literal: an optional minus sign, then \<^verbatim>\<open>0\<close> or a digit sequence that
  does not start with \<^verbatim>\<open>0\<close>. A fraction or an exponent is outside the fragment.
\<close>

definition jsonNumber :: "string \<Rightarrow> (json \<times> string) option" where
  "jsonNumber cs =
     (let neg = (cs \<noteq> [] \<and> hd cs = CHR ''-'');
          ds = (if neg then tl cs else cs)
      in if ds = [] \<or> \<not> isDigit (hd ds) then None
         else
           case (if hd ds = CHR ''0'' then (0, tl ds) else jsonDigits 0 ds) of (n, rest) \<Rightarrow>
             if rest \<noteq> [] \<and> (hd rest = CHR ''.'' \<or> hd rest = CHR ''e'' \<or> hd rest = CHR ''E'')
             then None
             else if n > 2 ^ 53 then None
             else Some (JNum (Finite (if neg then - of_nat n else of_nat n)), rest))"

definition literalAt :: "string \<Rightarrow> string \<Rightarrow> string option" where
  "literalAt w cs = (if take (length w) cs = w then Some (drop (length w) cs) else None)"

fun jsonValue :: "nat \<Rightarrow> string \<Rightarrow> (json \<times> string) option"
  and jsonElements :: "nat \<Rightarrow> json list \<Rightarrow> string \<Rightarrow> (json list \<times> string) option"
  and jsonMembers ::
    "nat \<Rightarrow> (string \<times> json) list \<Rightarrow> string \<Rightarrow> ((string \<times> json) list \<times> string) option"
  where
  "jsonValue 0 cs = None"
| "jsonValue (Suc fuel) cs =
     (case skipWs cs of
        [] \<Rightarrow> None
      | c # rest \<Rightarrow>
          if c = CHR ''{'' then
            (case skipWs rest of
               [] \<Rightarrow> None
             | d # rest' \<Rightarrow>
                 if d = CHR ''}'' then Some (JObj [], rest')
                 else map_option (\<lambda>(kvs, r). (JObj kvs, r)) (jsonMembers fuel [] rest))
          else if c = CHR ''['' then
            (case skipWs rest of
               [] \<Rightarrow> None
             | d # rest' \<Rightarrow>
                 if d = CHR '']'' then Some (JArr [], rest')
                 else map_option (\<lambda>(vs, r). (JArr vs, r)) (jsonElements fuel [] rest))
          else if c = CHR 0x22 then map_option (\<lambda>(s, r). (JStr s, r)) (jsonChars [] rest)
          else if c = CHR ''t'' then map_option (Pair (JBool True)) (literalAt ''rue'' rest)
          else if c = CHR ''f'' then map_option (Pair (JBool False)) (literalAt ''alse'' rest)
          else if c = CHR ''n'' then map_option (Pair JNull) (literalAt ''ull'' rest)
          else jsonNumber (c # rest))"
| "jsonElements 0 acc cs = None"
| "jsonElements (Suc fuel) acc cs =
     (case jsonValue fuel cs of
        None \<Rightarrow> None
      | Some (v, rest) \<Rightarrow>
          (case skipWs rest of
             [] \<Rightarrow> None
           | c # rest' \<Rightarrow>
               if c = CHR '']'' then Some (rev (v # acc), rest')
               else if c = CHR '','' then jsonElements fuel (v # acc) rest'
               else None))"
| "jsonMembers 0 acc cs = None"
| "jsonMembers (Suc fuel) acc cs =
     (case skipWs cs of
        [] \<Rightarrow> None
      | q # rest \<Rightarrow>
          if q \<noteq> CHR 0x22 then None
          else
            (case jsonChars [] rest of
               None \<Rightarrow> None
             | Some (k, rest1) \<Rightarrow>
                 (case skipWs rest1 of
                    [] \<Rightarrow> None
                  | c # rest2 \<Rightarrow>
                      if c \<noteq> CHR '':'' then None
                      else
                        (case jsonValue fuel rest2 of
                           None \<Rightarrow> None
                         | Some (v, rest3) \<Rightarrow>
                             (case skipWs rest3 of
                                [] \<Rightarrow> None
                              | e # rest4 \<Rightarrow>
                                  if e = CHR ''}'' then Some (rev ((k, v) # acc), rest4)
                                  else if e = CHR '','' then jsonMembers fuel ((k, v) # acc) rest4
                                  else None)))))"

definition decodeJson :: "string \<Rightarrow> json option" where
  "decodeJson s =
     (case jsonValue (Suc (length s)) s of
        None \<Rightarrow> None
      | Some (v, rest) \<Rightarrow> if skipWs rest = [] then Some v else None)"

section \<open>Queue directives\<close>

text \<open>
  Modelled from the spec: the directive parser of the auto-reply pipeline and its
  application to the session entry are not among the sources; only their test is. The
  spec has the inline directives \<^verbatim>\<open>/queue interrupt\<close>,
  \<^verbatim>\<open>/queue collect debounce:2s cap:5 drop:old\<close> and \<^verbatim>\<open>/queue reset\<close>; a queue
  state of mode (interrupt or collect; unset is the default), debounce in milliseconds,
  cap (at least 1) and drop (old or new); the duration shorthand \<^verbatim>\<open>s\<close> for a
  thousand milliseconds; a reset that clears all four fields at once; a confirmation
  that names the resolved values; and the rejection of an invalid option with a
  message. The confirmations are the ones the test expects, without the gear sign that
  opens the reply. The spec does not say what
  becomes of a field that a directive other than the reset does not name; here it is
  left as it was.
\<close>

datatype queue_directive =
    QueueReset
  | QueueSet "string option" "nat option" "nat option" "string option"

fun splitWords :: "string \<Rightarrow> string \<Rightarrow> string list" where
  "splitWords acc [] = (if acc = [] then [] else [rev acc])"
| "splitWords acc (c # cs) =
     (if isWhiteSpace c then (if acc = [] then splitWords [] cs else rev acc # splitWords [] cs)
      else splitWords (c # acc) cs)"

definition parseNat :: "string \<Rightarrow> nat option" where
  "parseNat s = (if s \<noteq> [] \<and> list_all isDigit s then Some (fst (jsonDigits 0 s)) else None)"

definition parseDurationMs :: "string \<Rightarrow> nat option" where
  "parseDurationMs s =
     (if s \<noteq> [] \<and> last s = CHR ''s'' then map_option (\<lambda>n. n * 1000) (parseNat (butlast s))
      else None)"

fun parseQueueOptions :: "string list \<Rightarrow> queue_directive \<Rightarrow> string + queue_directive" where
  "parseQueueOptions [] d = Inr d"
| "parseQueueOptions (t # ts) QueueReset = Inl ''Invalid queue directive: reset takes no option''"
| "parseQueueOptions (t # ts) (QueueSet m d c dr) =
     (if t = ''interrupt'' \<or> t = ''collect'' then parseQueueOptions ts (QueueSet (Some t) d c dr)
      else if take 9 t = ''debounce:'' then
        (case parseDurationMs (drop 9 t) of
           None \<Rightarrow> Inl (''Invalid queue debounce: '' @ drop 9 t)
         | Some ms \<Rightarrow> parseQueueOptions ts (QueueSet m (Some ms) c dr))
      else if take 4 t = ''cap:'' then
        (case parseNat (drop 4 t) of
           None \<Rightarrow> Inl (''Invalid queue cap: '' @ drop 4 t)
         | Some n \<Rightarrow>
             if n < 1 then Inl (''Invalid queue cap: '' @ drop 4 t)
             else parseQueueOptions ts (QueueSet m d (Some n) dr))
      else if take 5 t = ''drop:'' then
        (if drop 5 t = ''old'' \<or> drop 5 t = ''new''
         then parseQueueOptions ts (QueueSet m d c (Some (drop 5 t)))
         else Inl (''Invalid queue drop: '' @ drop 5 t))
      else Inl (''Unrecognized queue option: '' @ t))"

definition parseQueueDirective :: "string \<Rightarrow> string + queue_directive" where
  "parseQueueDirective body =
     (case splitWords [] body of
        [] \<Rightarrow> Inl ''Not a queue directive''
      | w # ws \<Rightarrow>
          if w \<noteq> ''/queue'' then Inl ''Not a queue directive''
          else if ws = [''reset''] then Inr QueueReset
          else parseQueueOptions ws (QueueSet None None None None))"

fun queueConfirmation :: "queue_directive \<Rightarrow> string" where
  "queueConfirmation QueueReset = ''Queue mode reset to default.''"
| "queueConfirmation (QueueSet m d c dr) =
     (case m of None \<Rightarrow> [] | Some x \<Rightarrow> ''Queue mode set to '' @ x @ ''.'') @
     (case d of None \<Rightarrow> [] | Some ms \<Rightarrow> '' Queue debounce set to '' @ decimal ms @ ''ms.'') @
     (case c of None \<Rightarrow> [] | Some n \<Rightarrow> '' Queue cap set to '' @ decimal n @ ''.'') @
     (case dr of None \<Rightarrow> [] | Some x \<Rightarrow> '' Queue drop set to '' @ x @ ''.'')"

fun applyQueueDirective :: "queue_directive \<Rightarrow> SessionEntry \<Rightarrow> SessionEntry" where
  "applyQueueDirective QueueReset e =
     e\<lparr>queueMode := None, queueDebounceMs := None, queueCap := None, queueDrop := None\<rparr>"
| "applyQueueDirective (QueueSet m d c dr) e =
     e\<lparr>queueMode := (case m of None \<Rightarrow> queueMode e | Some x \<Rightarrow> Some x),
       queueDebounceMs := (case d of None \<Rightarrow> queueDebounceMs e | Some x \<Rightarrow> Some x),
       queueCap := (case c of None \<Rightarrow> queueCap e | Some x \<Rightarrow> Some x),
       queueDrop := (case dr of None \<Rightarrow> queueDrop e | Some x \<Rightarrow> Some x)\<rparr>"

text \<open>
  A directive message applied to the stored entry: the new entry and the confirmation,
  or the message that rejects it (the entry is then left as it was).
\<close>

definition runQueueDirective :: "string \<Rightarrow> SessionEntry \<Rightarrow> string + SessionEntry \<times> string" where
  "runQueueDirective body e =
     (case parseQueueDirective body of
        Inl err \<Rightarrow> Inl err
      | Inr d \<Rightarrow> Inr (applyQueueDirective d e, queueConfirmation d))"

section \<open>A concrete gateway\<close>

text \<open>
  A platform and states on which the handler can be run: two known channels, the main
  key \<^verbatim>\<open>main\<close>, a store path, canonical keys under the default agent, and
  identifiers numbered as they are drawn.
\<close>

definition examplePlatform :: platform where
  "examplePlatform =
     \<lparr>JSON_parse = decodeJson,
      randomUUID = (\<lambda>n. ''uuid-'' @ decimal n),
      numberToString = (\<lambda>r. ''?''),
      normalizeChannelId =
        (\<lambda>c. if c = ''telegram'' \<or> c = ''whatsapp'' then Some c else None),
      mainKey = ''main'',
      storePath = ''/home/openclaw/sessions.json'',
      canonicalKey = (\<lambda>k. ''agent:main:'' @ k)\<rparr>"

definition emptyGateway :: gateway where
  "emptyGateway = \<lparr>sessionStore = Map.empty, effects = [], clock = 1700000000000, uuidsDrawn = 0\<rparr>"

definition exampleEntry :: SessionEntry where
  "exampleEntry =
     \<lparr>sessionId = ''sess-1'',
      updatedAt = 1600000000000,
      thinkingLevel = Some ''high'',
      verboseLevel = Some ''on'',
      reasoningLevel = Some ''stream'',
      elevatedLevel = Some ''off'',
      execHost = Some ''gateway'',
      execSecurity = Some ''allowlist'',
      execAsk = Some ''always'',
      execNode = Some ''mac-1'',
      queueMode = Some ''collect'',
      queueDebounceMs = Some 2000,
      queueCap = Some 5,
      queueDrop = Some ''old'',
      sendPolicy = Some ''allow'',
      systemSent = Some True,
      lastChannel = Some ''telegram'',
      lastTo = Some ''+1222''\<rparr>"

definition storedGateway :: gateway where
  "storedGateway = emptyGateway\<lparr>sessionStore := [''agent:main:main'' \<mapsto> exampleEntry]\<rparr>"

text \<open>
  The states and executor calls that the runs below arrive at: a voice transcript
  \<^verbatim>\<open>hello\<close> without a session key, received while \<open>exampleEntry\<close> is stored
  under the main key; and, on the empty gateway, a voice transcript and then an agent
  request on the session key \<^verbatim>\<open>chat\<close>.
\<close>

definition helloOpts :: agent_opts where
  "helloOpts =
     \<lparr>message_arg = ''hello'', sessionId_arg = ''sess-1'', sessionKey_arg = ''main'',
      thinking_arg = Some (JStr ''low''), deliver_arg = False, to_arg = None,
      channel_arg = None, timeout_arg = None, messageChannel_arg = ''node''\<rparr>"

definition storedGatewayAfterVoice :: gateway where
  "storedGatewayAfterVoice =
     \<lparr>sessionStore = [''agent:main:main'' \<mapsto>
        exampleEntry\<lparr>updatedAt := 1700000000000, elevatedLevel := None, execHost := None,
          execSecurity := None, execAsk := None, execNode := None, queueMode := None,
          queueDebounceMs := None, queueCap := None, queueDrop := None\<rparr>],
      effects = [AddChatRun ''sess-1'' ''main'' ''voice-uuid-0'', AgentCommand helloOpts],
      clock = 1700000000000,
      uuidsDrawn = 1\<rparr>"

definition freshEntry :: "string \<Rightarrow> int \<Rightarrow> SessionEntry" where
  "freshEntry sid now =
     \<lparr>sessionId = sid, updatedAt = now, thinkingLevel = None, verboseLevel = None,
      reasoningLevel = None, elevatedLevel = None, execHost = None, execSecurity = None,
      execAsk = None, execNode = None, queueMode = None, queueDebounceMs = None,
      queueCap = None, queueDrop = None, sendPolicy = None, systemSent = None,
      lastChannel = None, lastTo = None\<rparr>"





text \<open>An agent request that asks for delivery, with and without a known channel.\<close>

definition pingOpts :: "bool \<Rightarrow> string option \<Rightarrow> agent_opts" where
  "pingOpts d c =
     \<lparr>message_arg = ''ping'', sessionId_arg = ''uuid-0'', sessionKey_arg = ''node-n1'',
      thinking_arg = None, deliver_arg = d, to_arg = None,
      channel_arg = c, timeout_arg = None, messageChannel_arg = ''node''\<rparr>"

definition afterPing :: "bool \<Rightarrow> string option \<Rightarrow> gateway" where
  "afterPing d c =
     \<lparr>sessionStore = [''agent:main:node-n1'' \<mapsto> freshEntry ''uuid-0'' 1700000000000],
      effects = [AgentCommand (pingOpts d c)],
      clock = 1700000000000,
      uuidsDrawn = 1\<rparr>"

section \<open>Facts about the model\<close>

lemmas decode_simps =
  decodeJson_def skipWs_def isJsonSpace_def literalAt_def jsonNumber_def isDigit_def unescape_def

lemma decimal_digit [simp]: "n < 10 \<Longrightarrow> decimal n = [''0123456789'' ! n]"
  by (simp add: decimal.simps)

lemma effects_emit [simp]: "effects (emit e st) = effects st @ [e]"
  by (simp add: emit_def)

lemma sessionStore_emit [simp]: "sessionStore (emit e st) = sessionStore st"
  by (simp add: emit_def)

subsection \<open>The dispatch\<close>

lemma handleNodeEvent_exec:
  assumes "event evt = ''exec.started'' \<or> event evt = ''exec.finished'' \<or>
           event evt = ''exec.denied''"
    and "decodePayload p evt = Some payload"
  shows "handleNodeEvent p nodeId evt st = handleExec p (event evt) nodeId payload st"
  using assms by (auto simp add: handleNodeEvent_def withPayload_def)

lemma handleNodeEvent_voice:
  assumes "event evt = ''voice.transcript''" and "decodePayload p evt = Some payload"
  shows "handleNodeEvent p nodeId evt st = handleVoiceTranscript p nodeId payload st"
  using assms by (simp add: handleNodeEvent_def withPayload_def)

lemma handleNodeEvent_agent:
  assumes "event evt = ''agent.request''" and "decodePayload p evt = Some link"
  shows "handleNodeEvent p nodeId evt st = handleAgentRequest p nodeId link st"
  using assms by (simp add: handleNodeEvent_def withPayload_def)

subsection \<open>The resolution of a session\<close>

lemma resolveSession_effects [simp]: "effects (snd (resolveSession p k st)) = effects st"
  by (simp add: resolveSession_def loadSessionEntry_def Let_def split: option.split)

lemma resolveSession_sessionId:
  "fst (resolveSession p k st) =
     (case sessionStore st (canonicalKey p k) of
        Some e \<Rightarrow> sessionId e
      | None \<Rightarrow> randomUUID p (uuidsDrawn st))"
  by (simp add: resolveSession_def loadSessionEntry_def Let_def split: option.split)

lemma resolveSession_store_existing:
  assumes "sessionStore st (canonicalKey p k) = Some e"
  shows "sessionStore (snd (resolveSession p k st)) =
     (if storePath p \<noteq> [] then
        (sessionStore st)(canonicalKey p k \<mapsto>
           e\<lparr>updatedAt := clock st, elevatedLevel := None, execHost := None,
             execSecurity := None, execAsk := None, execNode := None, queueMode := None,
             queueDebounceMs := None, queueCap := None, queueDrop := None\<rparr>)
      else sessionStore st)"
  using assms by (cases e) (simp add: resolveSession_def loadSessionEntry_def Let_def)


text \<open>
  An event that reached the executor resolved the session under the key it passed
  to the executor: the call carries the session id of that resolution, and the store
  is the one the resolution left.
\<close>

lemma voice_accepted:
  assumes run: "handleVoiceTranscript p nodeId payload st = Inr st'"
    and acc: "effects st' = effects st @ es @ [AgentCommand opts]"
  shows "sessionId_arg opts = fst (resolveSession p (sessionKey_arg opts) st) \<and>
         sessionStore st' = sessionStore (snd (resolveSession p (sessionKey_arg opts) st))"
  using run acc
  by (auto simp add: handleVoiceTranscript_def Let_def split_beta split: if_splits
      dest!: arg_cong [where f = last])

lemma agent_accepted:
  assumes run: "handleAgentRequest p nodeId link st = Inr st'"
    and acc: "effects st' = effects st @ es @ [AgentCommand opts]"
  shows "sessionId_arg opts = fst (resolveSession p (sessionKey_arg opts) st) \<and>
         sessionStore st' = sessionStore (snd (resolveSession p (sessionKey_arg opts) st))"
  using run acc
  by (auto simp add: handleAgentRequest_def Let_def split_beta split: if_splits sum.splits
      dest!: arg_cong [where f = last])

lemma message_accepted:
  assumes kind: "event evt = ''voice.transcript'' \<or> event evt = ''agent.request''"
    and run: "handleNodeEvent p nodeId evt st = Inr st'"
    and acc: "effects st' = effects st @ es @ [AgentCommand opts]"
  shows "sessionId_arg opts = fst (resolveSession p (sessionKey_arg opts) st) \<and>
         sessionStore st' = sessionStore (snd (resolveSession p (sessionKey_arg opts) st))"
proof (cases "decodePayload p evt")
  case None
  with kind run have "st' = st"
    by (auto simp add: handleNodeEvent_def withPayload_def)
  with acc show ?thesis by simp
next
  case (Some payload)
  from kind show ?thesis
  proof
    assume "event evt = ''voice.transcript''"
    with Some run have "handleVoiceTranscript p nodeId payload st = Inr st'"
      by (simp add: handleNodeEvent_def withPayload_def)
    then show ?thesis using acc by (rule voice_accepted)
  next
    assume "event evt = ''agent.request''"
    with Some run have "handleAgentRequest p nodeId payload st = Inr st'"
      by (simp add: handleNodeEvent_def withPayload_def)
    then show ?thesis using acc by (rule agent_accepted)
  qed
qed

text \<open>
  An event with a usable text reaches the executor: the call carries the text in
  full, the session key chosen and the session id of its resolution.
\<close>

lemma voice_accepts:
  assumes body: "trimmedStringOr [] (getProp (asRecord payload) ''text'') = m"
    and size: "m \<noteq> []" "length m \<le> 20000"
    and key: "k = (if trimmedStringOr [] (getProp (asRecord payload) ''sessionKey'') \<noteq> []
                   then trimmedStringOr [] (getProp (asRecord payload) ''sessionKey'')
                   else mainKey p)"
  shows "\<exists>opts st1. handleVoiceTranscript p nodeId payload st = Inr (emit (AgentCommand opts) st1) \<and>
           message_arg opts = m \<and> sessionKey_arg opts = k \<and>
           sessionId_arg opts = fst (resolveSession p k st) \<and>
           sessionStore st1 = sessionStore (snd (resolveSession p k st))"
proof -
  let ?r = "resolveSession p k st"
  let ?O = "\<lparr>message_arg = m, sessionId_arg = fst ?r, sessionKey_arg = k,
             thinking_arg = Some (JStr ''low''), deliver_arg = False, to_arg = None,
             channel_arg = None, timeout_arg = None, messageChannel_arg = ''node''\<rparr>"
  let ?S = "emit (AddChatRun (fst ?r) k (''voice-'' @ randomUUID p (uuidsDrawn (snd ?r))))
              ((snd ?r)\<lparr>uuidsDrawn := Suc (uuidsDrawn (snd ?r))\<rparr>)"
  have "handleVoiceTranscript p nodeId payload st = Inr (emit (AgentCommand ?O) ?S)"
    using body size key by (simp add: handleVoiceTranscript_def Let_def split_beta)
  moreover have "message_arg ?O = m" "sessionKey_arg ?O = k"
    "sessionId_arg ?O = fst ?r" "sessionStore ?S = sessionStore (snd ?r)"
    by simp_all
  ultimately show ?thesis by blast
qed

lemma agent_accepts:
  assumes body: "coalesceTrim (getProp link ''message'') = Inr m"
    and size: "m \<noteq> []" "length m \<le> 20000"
    and raw: "coalesceTrim (getProp link ''sessionKey'') = Inr sk"
    and key: "k = (if sk \<noteq> [] then sk else ''node-'' @ nodeId)"
  shows "\<exists>opts st1. handleAgentRequest p nodeId link st = Inr (emit (AgentCommand opts) st1) \<and>
           message_arg opts = m \<and> sessionKey_arg opts = k \<and>
           sessionId_arg opts = fst (resolveSession p k st) \<and>
           sessionStore st1 = sessionStore (snd (resolveSession p k st))"
proof -
  let ?r = "resolveSession p k st"
  let ?ch = "normalizeChannelId p (trimmedStringOr [] (getProp link ''channel''))"
  let ?O = "\<lparr>message_arg = m, sessionId_arg = fst ?r, sessionKey_arg = k,
             thinking_arg = (case getProp link ''thinking'' of Some JNull \<Rightarrow> None | v \<Rightarrow> v),
             deliver_arg = (truthy (getProp link ''deliver'') \<and>
                            (case ?ch of Some c \<Rightarrow> c \<noteq> [] | None \<Rightarrow> False)),
             to_arg = (case getProp link ''to'' of
                         Some (JStr s) \<Rightarrow> if trim s \<noteq> [] then Some (trim s) else None
                       | _ \<Rightarrow> None),
             channel_arg = ?ch,
             timeout_arg = (case getProp link ''timeoutSeconds'' of
                              Some (JNum n) \<Rightarrow> Some (Number_toString p n)
                            | _ \<Rightarrow> None),
             messageChannel_arg = ''node''\<rparr>"
  have "handleAgentRequest p nodeId link st = Inr (emit (AgentCommand ?O) (snd ?r))"
    using body size raw key by (simp add: handleAgentRequest_def Let_def split_beta)
  moreover have "message_arg ?O = m" "sessionKey_arg ?O = k" "sessionId_arg ?O = fst ?r"
    by simp_all
  ultimately show ?thesis by blast
qed

text \<open>What the \<^verbatim>\<open>agent.request\<close> case passes for \<^verbatim>\<open>channel\<close> and \<^verbatim>\<open>deliver\<close>.\<close>

lemma agent_deliver:
  assumes run: "handleAgentRequest p nodeId link st = Inr st'"
    and acc: "effects st' = effects st @ es @ [AgentCommand opts]"
  shows "channel_arg opts = normalizeChannelId p (trimmedStringOr [] (getProp link ''channel'')) \<and>
         deliver_arg opts =
           (truthy (getProp link ''deliver'') \<and> (\<exists>c. channel_arg opts = Some c \<and> c \<noteq> []))"
  using run acc
  by (auto simp add: handleAgentRequest_def Let_def split_beta
      split: if_splits sum.splits option.splits dest!: arg_cong [where f = last])

subsection \<open>Events that are ignored, and one that throws\<close>

text \<open>
  A payload that is absent, empty or refused by \<^verbatim>\<open>JSON.parse\<close> leaves the state as
  it was, whatever the event; so does a decoded payload without a usable required field.
  The \<^verbatim>\<open>agent.request\<close> case is the exception: it calls \<^verbatim>\<open>trim\<close> on whatever
  \<^verbatim>\<open>message\<close> holds, and throws when that is a number, a boolean, an array or an
  object.
\<close>

lemma undecodable_event_ignored:
  "decodePayload p evt = None \<Longrightarrow> handleNodeEvent p nodeId evt st = Inr st"
  by (simp add: handleNodeEvent_def withPayload_def)

lemma incomplete_event_ignored:
  assumes dec: "decodePayload p evt = Some payload"
  shows
    "(event evt = ''node.lifecycle'' \<and> trimmedStringOr [] (getProp (asRecord payload) ''state'') = []
        \<longrightarrow> handleNodeEvent p nodeId evt st = Inr st) \<and>
     (event evt = ''node.location'' \<and>
      (\<not> isFinite (numberOrNaN (getProp (asRecord payload) ''lat'')) \<or>
       \<not> isFinite (numberOrNaN (getProp (asRecord payload) ''lon'')))
        \<longrightarrow> handleNodeEvent p nodeId evt st = Inr st) \<and>
     (event evt = ''push.apnsToken'' \<and> trimmedStringOr [] (getProp (asRecord payload) ''token'') = []
        \<longrightarrow> handleNodeEvent p nodeId evt st = Inr st) \<and>
     (event evt = ''voice.transcript'' \<and> trimmedStringOr [] (getProp (asRecord payload) ''text'') = []
        \<longrightarrow> handleNodeEvent p nodeId evt st = Inr st) \<and>
     (event evt = ''agent.request'' \<and> coalesceTrim (getProp payload ''message'') = Inr []
        \<longrightarrow> handleNodeEvent p nodeId evt st = Inr st) \<and>
     ((event evt = ''chat.subscribe'' \<or> event evt = ''chat.unsubscribe'') \<and>
      trimmedStringOr [] (getProp (asRecord payload) ''sessionKey'') = []
        \<longrightarrow> handleNodeEvent p nodeId evt st = Inr st)"
  using dec
  by (auto simp add: handleNodeEvent_def withPayload_def handleLifecycle_def handleLocation_def
      handleApnsToken_def handleVoiceTranscript_def handleAgentRequest_def
      handleChatSubscribe_def handleChatUnsubscribe_def Let_def)

lemma agent_request_message_not_string:
  assumes kind: "event evt = ''agent.request''" and dec: "decodePayload p evt = Some link"
    and bad: "getProp link ''message'' = Some v" "v \<noteq> JNull" "\<forall>s. v \<noteq> JStr s"
  shows "handleNodeEvent p nodeId evt st = Inl TypeError"
  using bad
  by (cases "Some v" rule: coalesceTrim.cases)
     (simp_all add: handleNodeEvent_agent [OF kind dec] handleAgentRequest_def)

subsection \<open>Decoding long texts\<close>

text \<open>
  A payload whose text is \<open>n\<close> letters long decodes to that text, and trimming
  leaves it whole; this gives payloads of 20,000 and of 20,001 code units.
\<close>

lemma trim_replicate: "\<not> isWhiteSpace c \<Longrightarrow> trim (replicate n c) = replicate n c"
  by (cases n) (simp_all add: trim_def flip: replicate_Suc)

lemma jsonChars_quote: "jsonChars acc (CHR 0x22 # rest) = Some (rev acc, rest)"
  by (cases rest) simp_all

lemma jsonChars_plain:
  assumes "c \<noteq> CHR 0x22" "c \<noteq> CHR 0x5C" "\<not> (of_char c :: nat) < 32" "cs \<noteq> []"
  shows "jsonChars acc (c # cs) = jsonChars (c # acc) cs"
  using assms by (cases cs) simp_all

lemma jsonChars_replicate:
  "jsonChars acc (replicate n (CHR ''a'') @ CHR 0x22 # rest) =
     Some (rev acc @ replicate n (CHR ''a''), rest)"
proof (induction n arbitrary: acc)
  case 0
  show ?case by (simp add: jsonChars_quote)
next
  case (Suc n)
  have "jsonChars acc (CHR ''a'' # replicate n (CHR ''a'') @ CHR 0x22 # rest) =
        jsonChars (CHR ''a'' # acc) (replicate n (CHR ''a'') @ CHR 0x22 # rest)"
    by (rule jsonChars_plain) simp_all
  with Suc show ?case
    by (simp add: replicate_append_same)
qed

lemma decodeJson_long_text:
  \<open>decodeJson (''{"text":"'' @ replicate n (CHR ''a'') @ ''"}'') =
     Some (JObj [(''text'', JStr (replicate n (CHR ''a'')))])\<close>
  by (simp add: decode_simps jsonChars_replicate [where acc = "[]", simplified])

lemma decodeJson_long_message:
  \<open>decodeJson (''{"message":"'' @ replicate n (CHR ''a'') @ ''"}'') =
     Some (JObj [(''message'', JStr (replicate n (CHR ''a'')))])\<close>
  by (simp add: decode_simps jsonChars_replicate [where acc = "[]", simplified])

subsection \<open>Runs on the concrete gateway\<close>

lemmas run_simps =
  handleNodeEvent_def withPayload_def decodePayload_def handleVoiceTranscript_def
  handleAgentRequest_def handleExec_def execText_def resolveSession_def loadSessionEntry_def
  emit_def Let_def trim_def isWhiteSpace_def examplePlatform_def emptyGateway_def

lemma run_voice_hello_stored:
  \<open>handleNodeEvent examplePlatform ''n1''
     \<lparr>event = ''voice.transcript'', payloadJSON = Some ''{"text":"hello"}''\<rparr> storedGateway =
   Inr storedGatewayAfterVoice\<close>
proof -
  have \<open>decodeJson ''{"text":"hello"}'' = Some (JObj [(''text'', JStr ''hello'')])\<close>
    by (simp add: decode_simps)
  then show ?thesis
    by (simp add: run_simps storedGateway_def exampleEntry_def storedGatewayAfterVoice_def
        helloOpts_def)
qed

lemma run_voice_hello_empty:
  \<open>handleNodeEvent examplePlatform ''n1''
     \<lparr>event = ''voice.transcript'', payloadJSON = Some ''{"text":"hello"}''\<rparr> emptyGateway =
   Inr \<lparr>sessionStore = [''agent:main:main'' \<mapsto> freshEntry ''uuid-0'' 1700000000000],
        effects = [AddChatRun ''uuid-0'' ''main'' ''voice-uuid-1'',
                   AgentCommand
                     \<lparr>message_arg = ''hello'', sessionId_arg = ''uuid-0'',
                      sessionKey_arg = ''main'', thinking_arg = Some (JStr ''low''),
                      deliver_arg = False, to_arg = None, channel_arg = None,
                      timeout_arg = None, messageChannel_arg = ''node''\<rparr>],
        clock = 1700000000000,
        uuidsDrawn = 2\<rparr>\<close>
proof -
  have \<open>decodeJson ''{"text":"hello"}'' = Some (JObj [(''text'', JStr ''hello'')])\<close>
    by (simp add: decode_simps)
  then show ?thesis
    by (simp add: run_simps freshEntry_def)
qed



lemma run_agent_ping_telegram:
  \<open>handleNodeEvent examplePlatform ''n1''
     \<lparr>event = ''agent.request'',
      payloadJSON = Some ''{"message":"ping","deliver":true,"channel":"telegram"}''\<rparr>
     emptyGateway =
   Inr (afterPing True (Some ''telegram''))\<close>
proof -
  have \<open>decodeJson ''{"message":"ping","deliver":true,"channel":"telegram"}'' =
          Some (JObj [(''message'', JStr ''ping''), (''deliver'', JBool True),
                      (''channel'', JStr ''telegram'')])\<close>
    by (simp add: decode_simps)
  then show ?thesis
    by (simp add: run_simps freshEntry_def afterPing_def pingOpts_def)
qed

lemma run_agent_ping_no_channel:
  \<open>handleNodeEvent examplePlatform ''n1''
     \<lparr>event = ''agent.request'', payloadJSON = Some ''{"message":"ping","deliver":true}''\<rparr>
     emptyGateway =
   Inr (afterPing False None)\<close>
proof -
  have \<open>decodeJson ''{"message":"ping","deliver":true}'' =
          Some (JObj [(''message'', JStr ''ping''), (''deliver'', JBool True)])\<close>
    by (simp add: decode_simps)
  then show ?thesis
    by (simp add: run_simps freshEntry_def afterPing_def pingOpts_def)
qed

lemma run_exec_started_no_runId:
  \<open>handleNodeEvent examplePlatform ''n1''
     \<lparr>event = ''exec.started'', payloadJSON = Some ''{"command":"ls"}''\<rparr> emptyGateway =
   Inr (emptyGateway\<lparr>effects :=
          [EnqueueSystemEvent ''Exec started (node=n1): ls'' ''node-n1'' ''exec'',
           RequestHeartbeatNow ''exec-event'']\<rparr>)\<close>
proof -
  have \<open>decodeJson ''{"command":"ls"}'' = Some (JObj [(''command'', JStr ''ls'')])\<close>
    by (simp add: decode_simps)
  then show ?thesis
    by (simp add: run_simps)
qed

section \<open>The claims\<close>

subsection \<open>C1: what the session upsert keeps\<close>

text \<open>
  C1 says that the upsert of a \<^verbatim>\<open>voice.transcript\<close> or \<^verbatim>\<open>agent.request\<close> event
  keeps every directive field of the stored entry, the elevated level, the exec
  defaults and the queue mode, debounce, cap and drop among them. The handler does not:
  it carries the stored settings over field by field, and the object it assigns lists
  nine fields, without those. Here the entry stored under the main key has the queue
  mode \<^verbatim>\<open>collect\<close> and the elevated level \<^verbatim>\<open>off\<close> (as the queue and elevated
  directives persist them); after the voice transcript \<^verbatim>\<open>hello\<close>, which falls back
  to the main key, the entry under the same key has neither.
\<close>

theorem upsert_drops_queue_settings:
  \<open>map_option queueMode (sessionStore storedGateway ''agent:main:main'') =
     Some (Some ''collect'') \<and>
   map_option elevatedLevel (sessionStore storedGateway ''agent:main:main'') =
     Some (Some ''off'') \<and>
   handleNodeEvent examplePlatform ''n1''
     \<lparr>event = ''voice.transcript'', payloadJSON = Some ''{"text":"hello"}''\<rparr> storedGateway =
     Inr storedGatewayAfterVoice \<and>
   map_option queueMode (sessionStore storedGatewayAfterVoice ''agent:main:main'') =
     Some None \<and>
   map_option elevatedLevel (sessionStore storedGatewayAfterVoice ''agent:main:main'') =
     Some None\<close>
  by (simp add: run_voice_hello_stored)
     (simp add: storedGateway_def emptyGateway_def storedGatewayAfterVoice_def exampleEntry_def)

text \<open>
  What the upsert does keep. When such an event reaches the executor under a session key
  whose canonical key already has an entry, and a store path is set, the store changes
  at that canonical key only, and the entry written there keeps \<^verbatim>\<open>sessionId\<close>,
  \<^verbatim>\<open>thinkingLevel\<close>, \<^verbatim>\<open>verboseLevel\<close>, \<^verbatim>\<open>reasoningLevel\<close>, \<^verbatim>\<open>sendPolicy\<close>,
  \<^verbatim>\<open>systemSent\<close>, \<^verbatim>\<open>lastChannel\<close> and \<^verbatim>\<open>lastTo\<close> and has the current time as
  \<^verbatim>\<open>updatedAt\<close>.
\<close>

lemma upsert_keeps_listed_fields:
  assumes kind: "event evt = ''voice.transcript'' \<or> event evt = ''agent.request''"
    and run: "handleNodeEvent p nodeId evt st = Inr st'"
    and acc: "effects st' = effects st @ es @ [AgentCommand opts]"
    and path: "storePath p \<noteq> []"
    and stored: "sessionStore st (canonicalKey p (sessionKey_arg opts)) = Some e"
  shows "\<exists>e'. sessionStore st' = (sessionStore st)(canonicalKey p (sessionKey_arg opts) \<mapsto> e') \<and>
           sessionId e' = sessionId e \<and> updatedAt e' = clock st \<and>
           thinkingLevel e' = thinkingLevel e \<and> verboseLevel e' = verboseLevel e \<and>
           reasoningLevel e' = reasoningLevel e \<and> sendPolicy e' = sendPolicy e \<and>
           systemSent e' = systemSent e \<and> lastChannel e' = lastChannel e \<and>
           lastTo e' = lastTo e"
proof -
  let ?e' = "e\<lparr>updatedAt := clock st, elevatedLevel := None, execHost := None,
    execSecurity := None, execAsk := None, execNode := None, queueMode := None,
    queueDebounceMs := None, queueCap := None, queueDrop := None\<rparr>"
  from message_accepted [OF kind run acc] resolveSession_store_existing [OF stored] path
  have "sessionStore st' = (sessionStore st)(canonicalKey p (sessionKey_arg opts) \<mapsto> ?e')"
    by simp
  moreover have "sessionId ?e' = sessionId e" "updatedAt ?e' = clock st"
    "thinkingLevel ?e' = thinkingLevel e" "verboseLevel ?e' = verboseLevel e"
    "reasoningLevel ?e' = reasoningLevel e" "sendPolicy ?e' = sendPolicy e"
    "systemSent ?e' = systemSent e" "lastChannel ?e' = lastChannel e" "lastTo ?e' = lastTo e"
    by simp_all
  ultimately show ?thesis by blast
qed

text \<open>
  The same at the voice transcript \<^verbatim>\<open>hello\<close>, received while \<open>exampleEntry\<close> is
  stored under the main key.
\<close>

lemma upsert_keeps_listed_fields_example:
  "\<exists>e'. sessionStore storedGatewayAfterVoice =
          (sessionStore storedGateway)(''agent:main:main'' \<mapsto> e') \<and>
        sessionId e' = ''sess-1'' \<and> updatedAt e' = 1700000000000 \<and>
        thinkingLevel e' = Some ''high'' \<and> verboseLevel e' = Some ''on'' \<and>
        reasoningLevel e' = Some ''stream'' \<and> sendPolicy e' = Some ''allow'' \<and>
        systemSent e' = Some True \<and> lastChannel e' = Some ''telegram'' \<and>
        lastTo e' = Some ''+1222''"
proof -
  have acc: "effects storedGatewayAfterVoice =
      effects storedGateway @ [AddChatRun ''sess-1'' ''main'' ''voice-uuid-0''] @
      [AgentCommand helloOpts]"
    by (simp add: storedGatewayAfterVoice_def storedGateway_def emptyGateway_def)
  have path: "storePath examplePlatform \<noteq> []"
    by (simp add: examplePlatform_def)
  have stored: "sessionStore storedGateway
      (canonicalKey examplePlatform (sessionKey_arg helloOpts)) = Some exampleEntry"
    by (simp add: storedGateway_def emptyGateway_def examplePlatform_def helloOpts_def)
  from upsert_keeps_listed_fields [OF _ run_voice_hello_stored acc path stored]
  show ?thesis
    by (simp add: examplePlatform_def helloOpts_def storedGateway_def emptyGateway_def
        exampleEntry_def)
qed

subsection \<open>C2: the session id of a key is stable\<close>




subsection \<open>C3: an exec.finished event, end to end\<close>

text \<open>
  C3. The event \<^verbatim>\<open>exec.finished\<close> with the payload text
  \<^verbatim>\<open>{"runId":"run-2","exitCode":0,"timedOut":false,"output":"done"}\<close> from the node
  \<^verbatim>\<open>node-2\<close> enqueues exactly the system event with the text
  \<^verbatim>\<open>Exec finished (node=node-2 id=run-2, code 0)\<close>, a line feed and \<^verbatim>\<open>done\<close>, tagged
  with the session key \<^verbatim>\<open>node-node-2\<close> and the context key \<^verbatim>\<open>exec:run-2\<close>, and
  then requests a heartbeat; it does nothing else.
\<close>

theorem exec_finished_end_to_end:
  \<open>handleNodeEvent (p\<lparr>JSON_parse := decodeJson\<rparr>) ''node-2''
     \<lparr>event = ''exec.finished'',
      payloadJSON = Some ''{"runId":"run-2","exitCode":0,"timedOut":false,"output":"done"}''\<rparr> st =
   Inr (emit (RequestHeartbeatNow ''exec-event'')
          (emit (EnqueueSystemEvent
                   (''Exec finished (node=node-2 id=run-2, code 0)'' @ [CHR 0x0A] @ ''done'')
                   ''node-node-2'' ''exec:run-2'') st))\<close>
proof -
  have dec: \<open>decodeJson ''{"runId":"run-2","exitCode":0,"timedOut":false,"output":"done"}'' =
      Some (JObj [(''runId'', JStr ''run-2''), (''exitCode'', JNum (Finite 0)),
                  (''timedOut'', JBool False), (''output'', JStr ''done'')])\<close>
    by (simp add: decode_simps)
  show ?thesis
    by (simp add: handleNodeEvent_def withPayload_def decodePayload_def dec handleExec_def
        execText_def trim_def isWhiteSpace_def)
qed

subsection \<open>C4: oversized texts\<close>

text \<open>
  C4. A \<^verbatim>\<open>voice.transcript\<close> whose trimmed \<^verbatim>\<open>text\<close>, or an \<^verbatim>\<open>agent.request\<close>
  whose trimmed \<^verbatim>\<open>message\<close>, is longer than 20,000 code units leaves the gateway as
  it was: no call of the executor, no write to the session store, no chat run
  registered. A text of at most 20,000 code units (and so one of exactly 20,000) that
  is not empty reaches the executor, in full. For the agent request this supposes that
  \<^verbatim>\<open>sessionKey\<close> is absent, null or a string.
\<close>

theorem oversized_message_dropped:
  assumes dec: "decodePayload p evt = Some payload"
  shows
    "(event evt = ''voice.transcript'' \<and> getProp (asRecord payload) ''text'' = Some (JStr t) \<and>
      length (trim t) > 20000 \<longrightarrow> handleNodeEvent p nodeId evt st = Inr st) \<and>
     (event evt = ''agent.request'' \<and> getProp payload ''message'' = Some (JStr t) \<and>
      length (trim t) > 20000 \<longrightarrow> handleNodeEvent p nodeId evt st = Inr st) \<and>
     (event evt = ''voice.transcript'' \<and> getProp (asRecord payload) ''text'' = Some (JStr t) \<and>
      trim t \<noteq> [] \<and> length (trim t) \<le> 20000 \<longrightarrow>
        (\<exists>opts st1. handleNodeEvent p nodeId evt st = Inr (emit (AgentCommand opts) st1) \<and>
           message_arg opts = trim t)) \<and>
     (event evt = ''agent.request'' \<and> getProp payload ''message'' = Some (JStr t) \<and>
      trim t \<noteq> [] \<and> length (trim t) \<le> 20000 \<and>
      coalesceTrim (getProp payload ''sessionKey'') = Inr sk \<longrightarrow>
        (\<exists>opts st1. handleNodeEvent p nodeId evt st = Inr (emit (AgentCommand opts) st1) \<and>
           message_arg opts = trim t))"
proof (intro conjI impI)
  assume "event evt = ''voice.transcript'' \<and> getProp (asRecord payload) ''text'' = Some (JStr t) \<and>
      length (trim t) > 20000"
  then show "handleNodeEvent p nodeId evt st = Inr st"
    by (simp add: handleNodeEvent_voice [OF _ dec] handleVoiceTranscript_def Let_def)
next
  assume "event evt = ''agent.request'' \<and> getProp payload ''message'' = Some (JStr t) \<and>
      length (trim t) > 20000"
  then show "handleNodeEvent p nodeId evt st = Inr st"
    by (simp add: handleNodeEvent_agent [OF _ dec] handleAgentRequest_def Let_def)
next
  assume a: "event evt = ''voice.transcript'' \<and> getProp (asRecord payload) ''text'' = Some (JStr t) \<and>
      trim t \<noteq> [] \<and> length (trim t) \<le> 20000"
  then have "trimmedStringOr [] (getProp (asRecord payload) ''text'') = trim t" by simp
  from voice_accepts [OF this _ _ refl, of p nodeId st] a
  show "\<exists>opts st1. handleNodeEvent p nodeId evt st = Inr (emit (AgentCommand opts) st1) \<and>
           message_arg opts = trim t"
    by (auto simp add: handleNodeEvent_voice [OF _ dec])
next
  assume a: "event evt = ''agent.request'' \<and> getProp payload ''message'' = Some (JStr t) \<and>
      trim t \<noteq> [] \<and> length (trim t) \<le> 20000 \<and>
      coalesceTrim (getProp payload ''sessionKey'') = Inr sk"
  then have "coalesceTrim (getProp payload ''message'') = Inr (trim t)" by simp
  from agent_accepts [OF this _ _ _ refl, of sk p nodeId st] a
  show "\<exists>opts st1. handleNodeEvent p nodeId evt st = Inr (emit (AgentCommand opts) st1) \<and>
           message_arg opts = trim t"
    by (auto simp add: handleNodeEvent_agent [OF _ dec])
qed

text \<open>
  The theorem at texts of 20,001 letters, which are dropped, and of 20,000 letters,
  which reach the executor whole.
\<close>

theorem oversized_message_dropped_witness:
  \<open>length (trim (replicate 20001 (CHR ''a''))) = 20001 \<and>
   handleNodeEvent examplePlatform ''n1''
     \<lparr>event = ''voice.transcript'',
      payloadJSON = Some (''{"text":"'' @ replicate 20001 (CHR ''a'') @ ''"}'')\<rparr>
     emptyGateway = Inr emptyGateway \<and>
   handleNodeEvent examplePlatform ''n1''
     \<lparr>event = ''agent.request'',
      payloadJSON = Some (''{"message":"'' @ replicate 20001 (CHR ''a'') @ ''"}'')\<rparr>
     emptyGateway = Inr emptyGateway \<and>
   length (trim (replicate 20000 (CHR ''a''))) = 20000 \<and>
   (\<exists>opts st1.
      handleNodeEvent examplePlatform ''n1''
        \<lparr>event = ''voice.transcript'',
         payloadJSON = Some (''{"text":"'' @ replicate 20000 (CHR ''a'') @ ''"}'')\<rparr>
        emptyGateway = Inr (emit (AgentCommand opts) st1) \<and>
      message_arg opts = replicate 20000 (CHR ''a'')) \<and>
   (\<exists>opts st1.
      handleNodeEvent examplePlatform ''n1''
        \<lparr>event = ''agent.request'',
         payloadJSON = Some (''{"message":"'' @ replicate 20000 (CHR ''a'') @ ''"}'')\<rparr>
        emptyGateway = Inr (emit (AgentCommand opts) st1) \<and>
      message_arg opts = replicate 20000 (CHR ''a''))\<close>
proof -
  let ?voice = \<open>\<lambda>n. \<lparr>event = ''voice.transcript'',
    payloadJSON = Some (''{"text":"'' @ replicate n (CHR ''a'') @ ''"}'')\<rparr>\<close>
  let ?agent = \<open>\<lambda>n. \<lparr>event = ''agent.request'',
    payloadJSON = Some (''{"message":"'' @ replicate n (CHR ''a'') @ ''"}'')\<rparr>\<close>
  have decv: "decodePayload examplePlatform (?voice n) =
      Some (JObj [(''text'', JStr (replicate n (CHR ''a'')))])" for n
    by (simp add: decodePayload_def examplePlatform_def decodeJson_long_text [simplified])
  have deca: "decodePayload examplePlatform (?agent n) =
      Some (JObj [(''message'', JStr (replicate n (CHR ''a'')))])" for n
    by (simp add: decodePayload_def examplePlatform_def decodeJson_long_message [simplified])
  have tr: "trim (replicate n (CHR ''a'')) = replicate n (CHR ''a'')" for n
    by (rule trim_replicate) (simp add: isWhiteSpace_def)
  from oversized_message_dropped [OF decv [of 20001], where t = "replicate 20001 (CHR ''a'')"
      and nodeId = "''n1''" and st = emptyGateway and sk = "[]"]
  have 1: "handleNodeEvent examplePlatform ''n1'' (?voice 20001) emptyGateway = Inr emptyGateway"
    by (simp add: tr)
  from oversized_message_dropped [OF deca [of 20001], where t = "replicate 20001 (CHR ''a'')"
      and nodeId = "''n1''" and st = emptyGateway and sk = "[]"]
  have 2: "handleNodeEvent examplePlatform ''n1'' (?agent 20001) emptyGateway = Inr emptyGateway"
    by (simp add: tr)
  from oversized_message_dropped [OF decv [of 20000], where t = "replicate 20000 (CHR ''a'')"
      and nodeId = "''n1''" and st = emptyGateway and sk = "[]"]
  have 3: "\<exists>opts st1. handleNodeEvent examplePlatform ''n1'' (?voice 20000) emptyGateway =
             Inr (emit (AgentCommand opts) st1) \<and> message_arg opts = replicate 20000 (CHR ''a'')"
    by (simp add: tr)
  from oversized_message_dropped [OF deca [of 20000], where t = "replicate 20000 (CHR ''a'')"
      and nodeId = "''n1''" and st = emptyGateway and sk = "[]"]
  have 4: "\<exists>opts st1. handleNodeEvent examplePlatform ''n1'' (?agent 20000) emptyGateway =
             Inr (emit (AgentCommand opts) st1) \<and> message_arg opts = replicate 20000 (CHR ''a'')"
    by (simp add: tr)
  from 1 2 3 4 show ?thesis
    by (simp add: tr)
qed

subsection \<open>C5: an exec event without a run id\<close>

text \<open>
  C5, as amended. An \<^verbatim>\<open>exec.started\<close>, \<^verbatim>\<open>exec.finished\<close> or \<^verbatim>\<open>exec.denied\<close>
  event whose payload has no usable \<^verbatim>\<open>runId\<close> (absent, not a string, or blank) is
  not dropped: provided its session key is not blank, the note is enqueued under the
  context key \<^verbatim>\<open>exec\<close>, with the text of the event (which then names no run id),
  and a heartbeat is requested.
\<close>

theorem exec_without_runId_still_enqueued:
  assumes kind: "event evt = ''exec.started'' \<or> event evt = ''exec.finished'' \<or>
                 event evt = ''exec.denied''"
    and dec: "decodePayload p evt = Some payload"
    and norun: "trimmedStringOr [] (getProp (asRecord payload) ''runId'') = []"
    and key: "trimmedStringOr (''node-'' @ nodeId) (getProp (asRecord payload) ''sessionKey'') \<noteq> []"
  shows "handleNodeEvent p nodeId evt st =
           Inr (emit (RequestHeartbeatNow ''exec-event'')
                  (emit (EnqueueSystemEvent
                           (execText p (event evt) nodeId (asRecord payload))
                           (trimmedStringOr (''node-'' @ nodeId)
                              (getProp (asRecord payload) ''sessionKey''))
                           ''exec'') st))"
  using norun key by (simp add: handleNodeEvent_exec [OF kind dec] handleExec_def Let_def)

text \<open>
  The theorem at an \<^verbatim>\<open>exec.started\<close> event from the node \<^verbatim>\<open>n1\<close> whose payload
  has a command and no run id.
\<close>

theorem exec_without_runId_still_enqueued_witness:
  \<open>handleNodeEvent examplePlatform ''n1''
     \<lparr>event = ''exec.started'', payloadJSON = Some ''{"command":"ls"}''\<rparr> emptyGateway =
   Inr (emit (RequestHeartbeatNow ''exec-event'')
          (emit (EnqueueSystemEvent ''Exec started (node=n1): ls'' ''node-n1'' ''exec'')
             emptyGateway))\<close>
proof -
  let ?evt = \<open>\<lparr>event = ''exec.started'', payloadJSON = Some ''{"command":"ls"}''\<rparr>\<close>
  have \<open>decodeJson ''{"command":"ls"}'' = Some (JObj [(''command'', JStr ''ls'')])\<close>
    by (simp add: decode_simps)
  then have dec: "decodePayload examplePlatform ?evt = Some (JObj [(''command'', JStr ''ls'')])"
    by (simp add: decodePayload_def examplePlatform_def)
  from exec_without_runId_still_enqueued [OF _ dec, of "''n1''" emptyGateway]
  show ?thesis
    by (simp add: execText_def trim_def isWhiteSpace_def)
qed

text \<open>
  C5 as stated fails: the \<^verbatim>\<open>exec.started\<close> event with the payload
  \<^verbatim>\<open>{"command":"ls"}\<close>, which has no \<^verbatim>\<open>runId\<close>, enqueues a note and requests a
  heartbeat.
\<close>

theorem exec_started_without_runId_enqueued:
  \<open>handleNodeEvent examplePlatform ''n1''
     \<lparr>event = ''exec.started'', payloadJSON = Some ''{"command":"ls"}''\<rparr> emptyGateway =
   Inr (emptyGateway\<lparr>effects :=
          [EnqueueSystemEvent ''Exec started (node=n1): ls'' ''node-n1'' ''exec'',
           RequestHeartbeatNow ''exec-event'']\<rparr>) \<and>
   effects emptyGateway = []\<close>
  by (simp add: run_exec_started_no_runId) (simp add: emptyGateway_def)

subsection \<open>C6: the fallback session key\<close>

text \<open>
  C6, as amended. An \<^verbatim>\<open>agent.request\<close> event whose \<^verbatim>\<open>sessionKey\<close> is absent,
  null or blank resolves its session under \<^verbatim>\<open>node-<nodeId>\<close>. A
  \<^verbatim>\<open>voice.transcript\<close> event whose \<^verbatim>\<open>sessionKey\<close> is absent, not a string or blank
  resolves its session under the configured main key,
  \<^verbatim>\<open>normalizeMainKey(cfg.session?.mainKey)\<close>, not under a key of the node. In both
  cases the executor is called with that key and with the session id of that
  resolution.
\<close>

theorem fallback_session_key:
  assumes dec: "decodePayload p evt = Some payload"
  shows
    "(event evt = ''agent.request'' \<and> coalesceTrim (getProp payload ''message'') = Inr m \<and>
      m \<noteq> [] \<and> length m \<le> 20000 \<and> coalesceTrim (getProp payload ''sessionKey'') = Inr [] \<longrightarrow>
        (\<exists>opts st1. handleNodeEvent p nodeId evt st = Inr (emit (AgentCommand opts) st1) \<and>
           sessionKey_arg opts = ''node-'' @ nodeId \<and>
           sessionId_arg opts = fst (resolveSession p (''node-'' @ nodeId) st) \<and>
           sessionStore st1 = sessionStore (snd (resolveSession p (''node-'' @ nodeId) st)))) \<and>
     (event evt = ''voice.transcript'' \<and>
      trimmedStringOr [] (getProp (asRecord payload) ''text'') = m \<and>
      m \<noteq> [] \<and> length m \<le> 20000 \<and>
      trimmedStringOr [] (getProp (asRecord payload) ''sessionKey'') = [] \<longrightarrow>
        (\<exists>opts st1. handleNodeEvent p nodeId evt st = Inr (emit (AgentCommand opts) st1) \<and>
           sessionKey_arg opts = mainKey p \<and>
           sessionId_arg opts = fst (resolveSession p (mainKey p) st) \<and>
           sessionStore st1 = sessionStore (snd (resolveSession p (mainKey p) st))))"
proof (intro conjI impI)
  assume a: "event evt = ''agent.request'' \<and> coalesceTrim (getProp payload ''message'') = Inr m \<and>
      m \<noteq> [] \<and> length m \<le> 20000 \<and> coalesceTrim (getProp payload ''sessionKey'') = Inr []"
  from agent_accepts [of payload m "[]" "''node-'' @ nodeId" nodeId p st] a
  show "\<exists>opts st1. handleNodeEvent p nodeId evt st = Inr (emit (AgentCommand opts) st1) \<and>
           sessionKey_arg opts = ''node-'' @ nodeId \<and>
           sessionId_arg opts = fst (resolveSession p (''node-'' @ nodeId) st) \<and>
           sessionStore st1 = sessionStore (snd (resolveSession p (''node-'' @ nodeId) st))"
    by (auto simp add: handleNodeEvent_agent [OF _ dec])
next
  assume a: "event evt = ''voice.transcript'' \<and>
      trimmedStringOr [] (getProp (asRecord payload) ''text'') = m \<and>
      m \<noteq> [] \<and> length m \<le> 20000 \<and>
      trimmedStringOr [] (getProp (asRecord payload) ''sessionKey'') = []"
  from voice_accepts [of payload m "mainKey p" p nodeId st] a
  show "\<exists>opts st1. handleNodeEvent p nodeId evt st = Inr (emit (AgentCommand opts) st1) \<and>
           sessionKey_arg opts = mainKey p \<and>
           sessionId_arg opts = fst (resolveSession p (mainKey p) st) \<and>
           sessionStore st1 = sessionStore (snd (resolveSession p (mainKey p) st))"
    by (auto simp add: handleNodeEvent_voice [OF _ dec])
qed

text \<open>
  The theorem at an agent request and at a voice transcript from the node \<^verbatim>\<open>n1\<close>,
  neither with a session key: the first runs under \<^verbatim>\<open>node-n1\<close>, the second under
  \<^verbatim>\<open>main\<close>.
\<close>

theorem fallback_session_key_witness:
  \<open>(\<exists>opts st1.
      handleNodeEvent examplePlatform ''n1''
        \<lparr>event = ''agent.request'', payloadJSON = Some ''{"message":"ping"}''\<rparr> emptyGateway =
        Inr (emit (AgentCommand opts) st1) \<and>
      sessionKey_arg opts = ''node-n1'' \<and> sessionId_arg opts = ''uuid-0'') \<and>
   (\<exists>opts st1.
      handleNodeEvent examplePlatform ''n1''
        \<lparr>event = ''voice.transcript'', payloadJSON = Some ''{"text":"hello"}''\<rparr> emptyGateway =
        Inr (emit (AgentCommand opts) st1) \<and>
      sessionKey_arg opts = ''main'' \<and> sessionId_arg opts = ''uuid-0'')\<close>
proof -
  let ?agent = \<open>\<lparr>event = ''agent.request'', payloadJSON = Some ''{"message":"ping"}''\<rparr>\<close>
  let ?voice = \<open>\<lparr>event = ''voice.transcript'', payloadJSON = Some ''{"text":"hello"}''\<rparr>\<close>
  have \<open>decodeJson ''{"message":"ping"}'' = Some (JObj [(''message'', JStr ''ping'')])\<close>
    by (simp add: decode_simps)
  then have deca: "decodePayload examplePlatform ?agent = Some (JObj [(''message'', JStr ''ping'')])"
    by (simp add: decodePayload_def examplePlatform_def)
  have \<open>decodeJson ''{"text":"hello"}'' = Some (JObj [(''text'', JStr ''hello'')])\<close>
    by (simp add: decode_simps)
  then have decv: "decodePayload examplePlatform ?voice = Some (JObj [(''text'', JStr ''hello'')])"
    by (simp add: decodePayload_def examplePlatform_def)
  have ids: "fst (resolveSession examplePlatform k emptyGateway) = ''uuid-0''" for k
    by (simp add: resolveSession_sessionId emptyGateway_def examplePlatform_def)
  from fallback_session_key [OF deca, of "''ping''" "''n1''" emptyGateway]
  have 1: "\<exists>opts st1. handleNodeEvent examplePlatform ''n1'' ?agent emptyGateway =
             Inr (emit (AgentCommand opts) st1) \<and>
           sessionKey_arg opts = ''node-n1'' \<and> sessionId_arg opts = ''uuid-0''"
    by (simp add: trim_def isWhiteSpace_def ids) blast
  from fallback_session_key [OF decv, of "''hello''" "''n1''" emptyGateway]
  have 2: "\<exists>opts st1. handleNodeEvent examplePlatform ''n1'' ?voice emptyGateway =
             Inr (emit (AgentCommand opts) st1) \<and>
           sessionKey_arg opts = ''main'' \<and> sessionId_arg opts = ''uuid-0''"
    by (simp add: trim_def isWhiteSpace_def ids) (auto simp add: examplePlatform_def)
  from 1 2 show ?thesis by blast
qed

text \<open>
  C6 as stated fails for \<^verbatim>\<open>voice.transcript\<close>: a transcript from the node \<^verbatim>\<open>n1\<close>
  without a session key is run under \<^verbatim>\<open>main\<close>, and its entry is stored under the
  canonical key of \<^verbatim>\<open>main\<close>; nothing is resolved under \<^verbatim>\<open>node-n1\<close>.
\<close>

theorem voice_falls_back_to_main_key:
  \<open>handleNodeEvent examplePlatform ''n1''
     \<lparr>event = ''voice.transcript'', payloadJSON = Some ''{"text":"hello"}''\<rparr> emptyGateway =
   Inr \<lparr>sessionStore = [''agent:main:main'' \<mapsto> freshEntry ''uuid-0'' 1700000000000],
        effects = [AddChatRun ''uuid-0'' ''main'' ''voice-uuid-1'',
                   AgentCommand
                     \<lparr>message_arg = ''hello'', sessionId_arg = ''uuid-0'',
                      sessionKey_arg = ''main'', thinking_arg = Some (JStr ''low''),
                      deliver_arg = False, to_arg = None, channel_arg = None,
                      timeout_arg = None, messageChannel_arg = ''node''\<rparr>],
        clock = 1700000000000,
        uuidsDrawn = 2\<rparr> \<and>
   ''main'' \<noteq> ''node-n1'' \<and>
   canonicalKey examplePlatform ''main'' \<noteq> canonicalKey examplePlatform ''node-n1''\<close>
  by (simp add: run_voice_hello_empty) (simp add: examplePlatform_def)

subsection \<open>C7: delivery needs a known channel\<close>

text \<open>
  C7. Whenever an \<^verbatim>\<open>agent.request\<close> event calls the executor, the call's
  \<^verbatim>\<open>channel\<close> is \<^verbatim>\<open>normalizeChannelId\<close> of the trimmed \<^verbatim>\<open>channel\<close> of the request
  (of the empty string when the request has none), and its \<^verbatim>\<open>deliver\<close> is the
  conjunction of \<^verbatim>\<open>Boolean(link.deliver)\<close> and of that channel being a (non-empty)
  channel id. For a boolean flag \<^verbatim>\<open>Boolean(link.deliver)\<close> is the flag itself. In
  particular \<^verbatim>\<open>deliver\<close> is false whenever no channel id comes out, whatever the
  request asked for.
\<close>

theorem deliver_requires_channel:
  assumes kind: "event evt = ''agent.request''"
    and dec: "decodePayload p evt = Some link"
    and run: "handleNodeEvent p nodeId evt st = Inr st'"
    and acc: "effects st' = effects st @ es @ [AgentCommand opts]"
  shows "channel_arg opts = normalizeChannelId p (trimmedStringOr [] (getProp link ''channel'')) \<and>
         deliver_arg opts =
           (truthy (getProp link ''deliver'') \<and> (\<exists>c. channel_arg opts = Some c \<and> c \<noteq> [])) \<and>
         (getProp link ''deliver'' = Some (JBool b) \<longrightarrow>
            deliver_arg opts = (b \<and> (\<exists>c. channel_arg opts = Some c \<and> c \<noteq> []))) \<and>
         (channel_arg opts = None \<longrightarrow> \<not> deliver_arg opts)"
proof -
  from run have "handleAgentRequest p nodeId link st = Inr st'"
    by (simp add: handleNodeEvent_agent [OF kind dec])
  from agent_deliver [OF this acc] show ?thesis by auto
qed

text \<open>
  The theorem at two requests that ask for delivery: one names the channel
  \<^verbatim>\<open>telegram\<close> and is delivered, the other names no channel and is not.
\<close>

theorem deliver_requires_channel_witness:
  \<open>handleNodeEvent examplePlatform ''n1''
     \<lparr>event = ''agent.request'',
      payloadJSON = Some ''{"message":"ping","deliver":true,"channel":"telegram"}''\<rparr>
     emptyGateway = Inr (afterPing True (Some ''telegram'')) \<and>
   deliver_arg (pingOpts True (Some ''telegram'')) = True \<and>
   handleNodeEvent examplePlatform ''n1''
     \<lparr>event = ''agent.request'', payloadJSON = Some ''{"message":"ping","deliver":true}''\<rparr>
     emptyGateway = Inr (afterPing False None) \<and>
   deliver_arg (pingOpts False None) = False\<close>
proof -
  let ?e1 = \<open>\<lparr>event = ''agent.request'',
      payloadJSON = Some ''{"message":"ping","deliver":true,"channel":"telegram"}''\<rparr>\<close>
  let ?e2 = \<open>\<lparr>event = ''agent.request'',
      payloadJSON = Some ''{"message":"ping","deliver":true}''\<rparr>\<close>
  have \<open>decodeJson ''{"message":"ping","deliver":true,"channel":"telegram"}'' =
          Some (JObj [(''message'', JStr ''ping''), (''deliver'', JBool True),
                      (''channel'', JStr ''telegram'')])\<close>
    by (simp add: decode_simps)
  then have dec1: "decodePayload examplePlatform ?e1 =
      Some (JObj [(''message'', JStr ''ping''), (''deliver'', JBool True),
                  (''channel'', JStr ''telegram'')])"
    by (simp add: decodePayload_def examplePlatform_def)
  have \<open>decodeJson ''{"message":"ping","deliver":true}'' =
          Some (JObj [(''message'', JStr ''ping''), (''deliver'', JBool True)])\<close>
    by (simp add: decode_simps)
  then have dec2: "decodePayload examplePlatform ?e2 =
      Some (JObj [(''message'', JStr ''ping''), (''deliver'', JBool True)])"
    by (simp add: decodePayload_def examplePlatform_def)
  have acc: "effects (afterPing d c) = effects emptyGateway @ [] @ [AgentCommand (pingOpts d c)]"
    for d c
    by (simp add: afterPing_def emptyGateway_def)
  from deliver_requires_channel [OF _ dec1 run_agent_ping_telegram acc, of True]
  have 1: "deliver_arg (pingOpts True (Some ''telegram'')) = True"
    by (simp add: pingOpts_def)
  from deliver_requires_channel [OF _ dec2 run_agent_ping_no_channel acc, of True]
  have 2: "deliver_arg (pingOpts False None) = False"
    by (simp add: pingOpts_def)
  from 1 2 run_agent_ping_telegram run_agent_ping_no_channel show ?thesis
    by simp
qed

subsection \<open>C8: a message that is not a string\<close>

text \<open>
  C8 says that a payload without a valid required field is ignored and that the handler
  never throws. The \<^verbatim>\<open>agent.request\<close> event with the payload \<^verbatim>\<open>{"message":123}\<close>
  has no valid \<^verbatim>\<open>message\<close>; the handler throws a TypeError on it (its promise is
  rejected), where the \<^verbatim>\<open>voice.transcript\<close> case, which tests the type of \<^verbatim>\<open>text\<close>
  first, returns.
\<close>

theorem agent_request_number_message_throws:
  \<open>handleNodeEvent (p\<lparr>JSON_parse := decodeJson\<rparr>) nodeId
     \<lparr>event = ''agent.request'', payloadJSON = Some ''{"message":123}''\<rparr> st = Inl TypeError \<and>
   handleNodeEvent (p\<lparr>JSON_parse := decodeJson\<rparr>) nodeId
     \<lparr>event = ''voice.transcript'', payloadJSON = Some ''{"text":123}''\<rparr> st = Inr st\<close>
proof -
  have \<open>decodeJson ''{"message":123}'' = Some (JObj [(''message'', JNum (Finite 123))])\<close>
    and \<open>decodeJson ''{"text":123}'' = Some (JObj [(''text'', JNum (Finite 123))])\<close>
    by (simp_all add: decode_simps)
  then show ?thesis
    by (simp add: handleNodeEvent_def withPayload_def decodePayload_def handleAgentRequest_def
        handleVoiceTranscript_def)
qed

subsection \<open>C9: queue reset after queue interrupt\<close>

text \<open>
  C9. On any session entry, the directive \<^verbatim>\<open>/queue interrupt\<close> is accepted and sets
  the queue mode to \<^verbatim>\<open>interrupt\<close>; the directive \<^verbatim>\<open>/queue reset\<close> applied next is
  accepted and leaves the queue mode, debounce, cap and drop all unset (whatever they
  were before), touching nothing else.
\<close>

theorem queue_reset_after_interrupt:
  "runQueueDirective ''/queue interrupt'' e =
     Inr (e\<lparr>queueMode := Some ''interrupt''\<rparr>, ''Queue mode set to interrupt.'') \<and>
   runQueueDirective ''/queue reset'' (e\<lparr>queueMode := Some ''interrupt''\<rparr>) =
     Inr (e\<lparr>queueMode := None, queueDebounceMs := None, queueCap := None, queueDrop := None\<rparr>,
          ''Queue mode reset to default.'') \<and>
   queueMode (e\<lparr>queueMode := None, queueDebounceMs := None, queueCap := None,
               queueDrop := None\<rparr>) = None \<and>
   queueDebounceMs (e\<lparr>queueMode := None, queueDebounceMs := None, queueCap := None,
                     queueDrop := None\<rparr>) = None \<and>
   queueCap (e\<lparr>queueMode := None, queueDebounceMs := None, queueCap := None,
              queueDrop := None\<rparr>) = None \<and>
   queueDrop (e\<lparr>queueMode := None, queueDebounceMs := None, queueCap := None,
               queueDrop := None\<rparr>) = None"
  by (simp add: runQueueDirective_def parseQueueDirective_def isWhiteSpace_def)

subsection \<open>C10: a blank session key on an exec event\<close>

text \<open>
  C10. An \<^verbatim>\<open>exec.started\<close>, \<^verbatim>\<open>exec.finished\<close> or \<^verbatim>\<open>exec.denied\<close> event whose
  payload has a \<^verbatim>\<open>sessionKey\<close> that is a string trimming to the empty string leaves
  the gateway as it was: no note, no heartbeat request. When \<^verbatim>\<open>sessionKey\<close> is absent
  or not a string, the note is enqueued under the session key \<^verbatim>\<open>node-<nodeId>\<close> and
  a heartbeat is requested.
\<close>

theorem exec_session_key_blank_or_absent:
  assumes kind: "event evt = ''exec.started'' \<or> event evt = ''exec.finished'' \<or>
                 event evt = ''exec.denied''"
    and dec: "decodePayload p evt = Some payload"
  shows "(getProp (asRecord payload) ''sessionKey'' = Some (JStr s) \<and> trim s = [] \<longrightarrow>
            handleNodeEvent p nodeId evt st = Inr st) \<and>
         ((\<forall>s'. getProp (asRecord payload) ''sessionKey'' \<noteq> Some (JStr s')) \<longrightarrow>
            handleNodeEvent p nodeId evt st =
              Inr (emit (RequestHeartbeatNow ''exec-event'')
                     (emit (EnqueueSystemEvent
                              (execText p (event evt) nodeId (asRecord payload))
                              (''node-'' @ nodeId)
                              (if trimmedStringOr [] (getProp (asRecord payload) ''runId'') \<noteq> []
                               then ''exec:'' @ trimmedStringOr [] (getProp (asRecord payload) ''runId'')
                               else ''exec'')) st)))"
proof (intro conjI impI)
  assume "getProp (asRecord payload) ''sessionKey'' = Some (JStr s) \<and> trim s = []"
  then show "handleNodeEvent p nodeId evt st = Inr st"
    by (simp add: handleNodeEvent_exec [OF kind dec] handleExec_def)
next
  assume ns: "\<forall>s'. getProp (asRecord payload) ''sessionKey'' \<noteq> Some (JStr s')"
  have "trimmedStringOr (''node-'' @ nodeId) (getProp (asRecord payload) ''sessionKey'') =
        ''node-'' @ nodeId"
    using ns
    by (cases "(''node-'' @ nodeId, getProp (asRecord payload) ''sessionKey'')"
        rule: trimmedStringOr.cases) auto
  then show "handleNodeEvent p nodeId evt st =
              Inr (emit (RequestHeartbeatNow ''exec-event'')
                     (emit (EnqueueSystemEvent
                              (execText p (event evt) nodeId (asRecord payload))
                              (''node-'' @ nodeId)
                              (if trimmedStringOr [] (getProp (asRecord payload) ''runId'') \<noteq> []
                               then ''exec:'' @ trimmedStringOr [] (getProp (asRecord payload) ''runId'')
                               else ''exec'')) st))"
    by (simp add: handleNodeEvent_exec [OF kind dec] handleExec_def Let_def)
qed

text \<open>
  The theorem at two \<^verbatim>\<open>exec.denied\<close> events from the node \<^verbatim>\<open>n1\<close>: one with a
  session key of three spaces, one with a session key that is a number.
\<close>

theorem exec_session_key_blank_or_absent_witness:
  \<open>handleNodeEvent examplePlatform ''n1''
     \<lparr>event = ''exec.denied'',
      payloadJSON = Some ''{"sessionKey":"   ","runId":"r1","reason":"policy"}''\<rparr>
     emptyGateway = Inr emptyGateway \<and>
   handleNodeEvent examplePlatform ''n1''
     \<lparr>event = ''exec.denied'',
      payloadJSON = Some ''{"sessionKey":7,"runId":"r1","reason":"policy"}''\<rparr>
     emptyGateway =
     Inr (emit (RequestHeartbeatNow ''exec-event'')
            (emit (EnqueueSystemEvent ''Exec denied (node=n1 id=r1, policy)'' ''node-n1''
                     ''exec:r1'') emptyGateway))\<close>
proof -
  let ?blank = \<open>\<lparr>event = ''exec.denied'',
      payloadJSON = Some ''{"sessionKey":"   ","runId":"r1","reason":"policy"}''\<rparr>\<close>
  let ?number = \<open>\<lparr>event = ''exec.denied'',
      payloadJSON = Some ''{"sessionKey":7,"runId":"r1","reason":"policy"}''\<rparr>\<close>
  have \<open>decodeJson ''{"sessionKey":"   ","runId":"r1","reason":"policy"}'' =
          Some (JObj [(''sessionKey'', JStr ''   ''), (''runId'', JStr ''r1''),
                      (''reason'', JStr ''policy'')])\<close>
    by (simp add: decode_simps)
  then have dec1: "decodePayload examplePlatform ?blank =
      Some (JObj [(''sessionKey'', JStr ''   ''), (''runId'', JStr ''r1''),
                  (''reason'', JStr ''policy'')])"
    by (simp add: decodePayload_def examplePlatform_def)
  have \<open>decodeJson ''{"sessionKey":7,"runId":"r1","reason":"policy"}'' =
          Some (JObj [(''sessionKey'', JNum (Finite 7)), (''runId'', JStr ''r1''),
                      (''reason'', JStr ''policy'')])\<close>
    by (simp add: decode_simps)
  then have dec2: "decodePayload examplePlatform ?number =
      Some (JObj [(''sessionKey'', JNum (Finite 7)), (''runId'', JStr ''r1''),
                  (''reason'', JStr ''policy'')])"
    by (simp add: decodePayload_def examplePlatform_def)
  from exec_session_key_blank_or_absent [OF _ dec1, of "''   ''" "''n1''" emptyGateway]
  have 1: "handleNodeEvent examplePlatform ''n1'' ?blank emptyGateway = Inr emptyGateway"
    by (simp add: trim_def isWhiteSpace_def)
  from exec_session_key_blank_or_absent [OF _ dec2, of "[]" "''n1''" emptyGateway]
  have 2: "handleNodeEvent examplePlatform ''n1'' ?number emptyGateway =
     Inr (emit (RequestHeartbeatNow ''exec-event'')
            (emit (EnqueueSystemEvent ''Exec denied (node=n1 id=r1, policy)'' ''node-n1''
                     ''exec:r1'') emptyGateway))"
    by (simp add: execText_def trim_def isWhiteSpace_def)
  from 1 2 show ?thesis by simp
qed

end
